theory Spec2Isabelle
  imports Main
begin

section \<open>JavaScript values, objects and exceptions\<close>

text \<open>
  The plugin (\<^verbatim>\<open>src/index.js\<close>) handles configuration values that are strings, arrays of
  path segments, or \<^verbatim>\<open>undefined\<close>.  Objects are finite maps from property names to
  values; reading an absent property yields \<^verbatim>\<open>undefined\<close>.  An exception is a value of
  type \<open>error\<close>, and a computation that may throw returns \<open>error + 'a\<close>.
  Characters are bytes, so a string stands for its ASCII text.
\<close>

datatype jsval = Undefined | Str string | Arr "jsval list"

datatype error =
    TypeError string
  | Rejected string
  | BuildFailure string

type_synonym obj = "string \<rightharpoonup> jsval"

definition getProp :: "obj \<Rightarrow> string \<Rightarrow> jsval" where
  "getProp ob k = (case ob k of None \<Rightarrow> Undefined | Some v \<Rightarrow> v)"

fun truthy :: "jsval \<Rightarrow> bool" where
  "truthy Undefined = False"
| "truthy (Str s) = (s \<noteq> [])"
| "truthy (Arr xs) = True"

definition js_or :: "jsval \<Rightarrow> jsval \<Rightarrow> jsval" where
  "js_or a b = (if truthy a then a else b)"

definition bindE :: "error + 'a \<Rightarrow> ('a \<Rightarrow> error + 'b) \<Rightarrow> error + 'b" where
  "bindE m f = (case m of Inl e \<Rightarrow> Inl e | Inr x \<Rightarrow> f x)"

text \<open>String conversion, as a template literal performs it: an array is its elements
  joined by commas, an \<^verbatim>\<open>undefined\<close> element printing as the empty string.\<close>

fun js_toString :: "jsval \<Rightarrow> string" and js_join :: "jsval list \<Rightarrow> string" where
  "js_toString Undefined = ''undefined''"
| "js_toString (Str s) = s"
| "js_toString (Arr xs) = js_join xs"
| "js_join [] = []"
| "js_join [x] = (if x = Undefined then [] else js_toString x)"
| "js_join (x # y # ys) =
     (if x = Undefined then [] else js_toString x) @ '','' @ js_join (y # ys)"

text \<open>\<^verbatim>\<open>s.split(c)\<close> for a one-character separator: the empty string gives one empty piece.\<close>

fun split_sep :: "char \<Rightarrow> string \<Rightarrow> string list" where
  "split_sep c [] = [[]]"
| "split_sep c (x # xs) =
     (if x = c then [] # split_sep c xs
      else (case split_sep c xs of [] \<Rightarrow> [[x]] | y # ys \<Rightarrow> (x # y) # ys))"

text \<open>\<^verbatim>\<open>v.split(path.sep)\<close>: only a string has the method.\<close>

definition js_split :: "char \<Rightarrow> jsval \<Rightarrow> error + jsval list" where
  "js_split c v =
     (case v of
        Str s \<Rightarrow> Inr (map Str (split_sep c s))
      | _ \<Rightarrow> Inl (TypeError ''split is not a function''))"

text \<open>\<^verbatim>\<open>...v\<close> inside an array literal or an argument list: an array gives its elements, a
  string its characters, \<^verbatim>\<open>undefined\<close> is not iterable.\<close>

definition spread :: "jsval \<Rightarrow> error + jsval list" where
  "spread v =
     (case v of
        Undefined \<Rightarrow> Inl (TypeError ''undefined is not iterable'')
      | Str s \<Rightarrow> Inr (map (\<lambda>c. Str [c]) s)
      | Arr xs \<Rightarrow> Inr xs)"

section \<open>Default configurations\<close>

text \<open>The constants the plugin reads from the external package
  \<^verbatim>\<open>netlify-onegraph-internal\<close> (\<^verbatim>\<open>NetlifyGraph.*\<close>) are parameters.\<close>

record netlifyGraphLib =
  defaultSourceOperationsFilename :: jsval
  defaultSourceOperationsDirectoryName :: jsval
  defaultGraphQLSchemaFilename :: jsval
  defaultNetlifyGraphConfig :: obj

record factoryContext =
  baseConfig :: obj
  detectedFunctionsPath :: "jsval list"
  siteRoot :: "jsval list"

definition filterRelativePathItems :: "jsval list \<Rightarrow> jsval list" where
  "filterRelativePathItems items = filter (\<lambda>part. part \<noteq> Str []) items"

definition makeDefaultNetlifyGraphConfig :: "netlifyGraphLib \<Rightarrow> factoryContext \<Rightarrow> obj" where
  "makeDefaultNetlifyGraphConfig lib ctx =
    (let functionsPath = filterRelativePathItems (detectedFunctionsPath ctx);
         webhookBasePath = Str ''/.netlify/functions'';
         netlifyGraphPath = functionsPath @ [Str ''netlifyGraph''];
         netlifyGraphImplementationFilename =
           netlifyGraphPath @ [Str (''index.'' @ js_toString (getProp (baseConfig ctx) ''extension''))];
         netlifyGraphTypeDefinitionsFilename = netlifyGraphPath @ [Str ''index.d.ts''];
         graphQLOperationsSourceFilename =
           netlifyGraphPath @ [defaultSourceOperationsFilename lib];
         graphQLOperationsSourceDirectory =
           netlifyGraphPath @ [defaultSourceOperationsDirectoryName lib];
         graphQLSchemaFilename = netlifyGraphPath @ [defaultGraphQLSchemaFilename lib];
         netlifyGraphRequirePath = [Str ''./netlifyGraph''];
         moduleType = js_or (getProp (baseConfig ctx) ''moduleType'') (Str ''esm'')
     in [''functionsPath'' \<mapsto> Arr functionsPath,
         ''webhookBasePath'' \<mapsto> webhookBasePath,
         ''netlifyGraphPath'' \<mapsto> Arr netlifyGraphPath,
         ''netlifyGraphImplementationFilename'' \<mapsto> Arr netlifyGraphImplementationFilename,
         ''netlifyGraphTypeDefinitionsFilename'' \<mapsto> Arr netlifyGraphTypeDefinitionsFilename,
         ''graphQLOperationsSourceDirectory'' \<mapsto> Arr graphQLOperationsSourceDirectory,
         ''graphQLOperationsSourceFilename'' \<mapsto> Arr graphQLOperationsSourceFilename,
         ''graphQLSchemaFilename'' \<mapsto> Arr graphQLSchemaFilename,
         ''netlifyGraphRequirePath'' \<mapsto> Arr netlifyGraphRequirePath,
         ''moduleType'' \<mapsto> moduleType])"

definition makeDefaultNextJsNetlifyGraphConfig :: "netlifyGraphLib \<Rightarrow> factoryContext \<Rightarrow> error + obj" where
  "makeDefaultNextJsNetlifyGraphConfig lib ctx =
    (let functionsPath = filterRelativePathItems (siteRoot ctx @ [Str ''pages'', Str ''api'']);
         webhookBasePath = Str ''/api'';
         netlifyGraphPath =
           filterRelativePathItems (siteRoot ctx @ [Str ''lib'', Str ''netlifyGraph'']);
         netlifyGraphImplementationFilename =
           netlifyGraphPath @ [Str (''index.'' @ js_toString (getProp (baseConfig ctx) ''extension''))];
         netlifyGraphTypeDefinitionsFilename = netlifyGraphPath @ [Str ''index.d.ts''];
         graphQLOperationsSourceFilename =
           netlifyGraphPath @ [defaultSourceOperationsFilename lib];
         graphQLSchemaFilename = netlifyGraphPath @ [defaultGraphQLSchemaFilename lib]
     in bindE (spread (defaultSourceOperationsDirectoryName lib)) (\<lambda>directoryName.
        let graphQLOperationsSourceDirectory = netlifyGraphPath @ directoryName;
            netlifyGraphRequirePath = [Str ''..'', Str ''..'', Str ''lib'', Str ''netlifyGraph''];
            moduleType = js_or (getProp (baseConfig ctx) ''moduleType'') (Str ''esm'')
        in Inr [''functionsPath'' \<mapsto> Arr functionsPath,
             ''webhookBasePath'' \<mapsto> webhookBasePath,
             ''netlifyGraphPath'' \<mapsto> Arr netlifyGraphPath,
             ''netlifyGraphImplementationFilename'' \<mapsto> Arr netlifyGraphImplementationFilename,
             ''netlifyGraphTypeDefinitionsFilename'' \<mapsto> Arr netlifyGraphTypeDefinitionsFilename,
             ''graphQLOperationsSourceDirectory'' \<mapsto> Arr graphQLOperationsSourceDirectory,
             ''graphQLOperationsSourceFilename'' \<mapsto> Arr graphQLOperationsSourceFilename,
             ''graphQLSchemaFilename'' \<mapsto> Arr graphQLSchemaFilename,
             ''netlifyGraphRequirePath'' \<mapsto> Arr netlifyGraphRequirePath,
             ''moduleType'' \<mapsto> moduleType]))"

definition makeDefaultRemixNetlifyGraphConfig :: "netlifyGraphLib \<Rightarrow> factoryContext \<Rightarrow> error + obj" where
  "makeDefaultRemixNetlifyGraphConfig lib ctx =
    (let functionsPath = filterRelativePathItems (detectedFunctionsPath ctx);
         webhookBasePath = Str ''/webhooks''
     in bindE (spread (getProp (defaultNetlifyGraphConfig lib) ''netlifyGraphPath'')) (\<lambda>libPath.
        let netlifyGraphPath = filterRelativePathItems (siteRoot ctx @ libPath);
            netlifyGraphImplementationFilename =
              netlifyGraphPath @ [Str (''index.'' @ js_toString (getProp (baseConfig ctx) ''extension''))];
            netlifyGraphTypeDefinitionsFilename = netlifyGraphPath @ [Str ''index.d.ts''];
            graphQLOperationsSourceFilename =
              netlifyGraphPath @ [defaultSourceOperationsFilename lib];
            graphQLSchemaFilename = netlifyGraphPath @ [defaultGraphQLSchemaFilename lib]
        in bindE (spread (defaultSourceOperationsDirectoryName lib)) (\<lambda>directoryName.
           let graphQLOperationsSourceDirectory = netlifyGraphPath @ directoryName;
               netlifyGraphRequirePath = [Str ''../../netlify/functions/netlifyGraph''];
               moduleType = Str ''esm''
           in Inr [''functionsPath'' \<mapsto> Arr functionsPath,
                ''webhookBasePath'' \<mapsto> webhookBasePath,
                ''netlifyGraphPath'' \<mapsto> Arr netlifyGraphPath,
                ''netlifyGraphImplementationFilename'' \<mapsto> Arr netlifyGraphImplementationFilename,
                ''netlifyGraphTypeDefinitionsFilename'' \<mapsto> Arr netlifyGraphTypeDefinitionsFilename,
                ''graphQLOperationsSourceDirectory'' \<mapsto> Arr graphQLOperationsSourceDirectory,
                ''graphQLOperationsSourceFilename'' \<mapsto> Arr graphQLOperationsSourceFilename,
                ''graphQLSchemaFilename'' \<mapsto> Arr graphQLSchemaFilename,
                ''netlifyGraphRequirePath'' \<mapsto> Arr netlifyGraphRequirePath,
                ''moduleType'' \<mapsto> moduleType])))"

text \<open>\<^verbatim>\<open>defaultFrameworkLookup[id] || defaultFrameworkLookup.default\<close>, for the identifiers
  the framework detector reports (none of them names a property every object inherits).\<close>

definition defaultFrameworkLookup :: "jsval \<Rightarrow> netlifyGraphLib \<Rightarrow> factoryContext \<Rightarrow> error + obj" where
  "defaultFrameworkLookup detectedFrameworkId =
     (if js_toString detectedFrameworkId = ''next'' then makeDefaultNextJsNetlifyGraphConfig
      else if js_toString detectedFrameworkId = ''remix'' then makeDefaultRemixNetlifyGraphConfig
      else (\<lambda>lib ctx. Inr (makeDefaultNetlifyGraphConfig lib ctx)))"

section \<open>Resolving the configuration\<close>

text \<open>What \<^verbatim>\<open>getNetlifyGraphConfig\<close> reads from its surroundings: the path separator, the
  working directory, the answer of the framework detector (the identifiers of the
  frameworks found, or a rejection) and whether \<^verbatim>\<open>tsconfig.json\<close> exists.\<close>

record configEnv =
  path_sep :: char
  cwd :: string
  listFrameworks :: "error + string list"
  tsconfigExists :: bool

record buildConfig =
  graph :: "obj option"
  functionsDirectory :: jsval

text \<open>\<^verbatim>\<open>(config && config.graph) || {}\<close>\<close>

definition userSpecifiedConfigOf :: "buildConfig \<Rightarrow> obj" where
  "userSpecifiedConfigOf config = (case graph config of None \<Rightarrow> Map.empty | Some g \<Rightarrow> g)"

text \<open>\<^verbatim>\<open>frameworks[0] && frameworks[0].id\<close>\<close>

definition detectedFrameworkIdOf :: "string list \<Rightarrow> jsval" where
  "detectedFrameworkIdOf frameworks = (case frameworks of [] \<Rightarrow> Undefined | f # _ \<Rightarrow> Str f)"

definition siteRootOf :: "configEnv \<Rightarrow> jsval list" where
  "siteRootOf env =
     Str [path_sep env] #
       filterRelativePathItems (map Str (split_sep (path_sep env) (cwd env)))"

definition detectedFunctionsPathOf :: "configEnv \<Rightarrow> buildConfig \<Rightarrow> error + jsval list" where
  "detectedFunctionsPathOf env config =
    (let sep = path_sep env;
         defaultFunctionsPath = [Str ''netlify'', Str ''functions''];
         defaultFunctionsDirectory = Str (''netlify'' @ [sep] @ ''functions'');
         detectedFunctionsPathString =
           js_or (functionsDirectory config) defaultFunctionsDirectory
     in if truthy detectedFunctionsPathString
        then map_sum id (\<lambda>xs. Str [sep] # xs) (js_split sep detectedFunctionsPathString)
        else Inr defaultFunctionsPath)"

text \<open>The local constant \<^verbatim>\<open>defaultFrameworkConfig\<close> of \<^verbatim>\<open>getNetlifyGraphConfig\<close>: the factory
  chosen for the detected framework, applied to the base configuration (the package
  defaults overridden by the user's settings), the functions path and the site root.\<close>

definition defaultFrameworkConfigOf ::
  "netlifyGraphLib \<Rightarrow> configEnv \<Rightarrow> buildConfig \<Rightarrow> string list \<Rightarrow> error + obj" where
  "defaultFrameworkConfigOf lib env config frameworks =
    (let makeDefaultFrameworkConfig = defaultFrameworkLookup (detectedFrameworkIdOf frameworks);
         baseConfig = defaultNetlifyGraphConfig lib ++ userSpecifiedConfigOf config
     in bindE (detectedFunctionsPathOf env config) (\<lambda>detectedFunctionsPath.
        makeDefaultFrameworkConfig lib
          \<lparr>baseConfig = baseConfig, detectedFunctionsPath = detectedFunctionsPath,
           siteRoot = siteRootOf env\<rparr>))"

text \<open>\<^verbatim>\<open>u && u.split(path.sep)\<close>\<close>

definition splitIfSet :: "char \<Rightarrow> jsval \<Rightarrow> error + jsval" where
  "splitIfSet c u = (if truthy u then map_sum id Arr (js_split c u) else Inr u)"

definition getNetlifyGraphConfig ::
  "netlifyGraphLib \<Rightarrow> configEnv \<Rightarrow> buildConfig \<Rightarrow> error + obj" where
  "getNetlifyGraphConfig lib env config =
    (let userSpecifiedConfig = userSpecifiedConfigOf config;
         sep = path_sep env
     in bindE (listFrameworks env) (\<lambda>frameworks.
     let detectedFrameworkId = detectedFrameworkIdOf frameworks;
         siteRoot = siteRootOf env;
         baseConfig = defaultNetlifyGraphConfig lib ++ userSpecifiedConfig
     in bindE (defaultFrameworkConfigOf lib env config frameworks) (\<lambda>defaultFrameworkConfig.
     let autodetectedLanguage =
           (if tsconfigExists env then Str ''typescript'' else Str ''javascript'');
         defaultConfig =
           defaultNetlifyGraphConfig lib ++ defaultFrameworkConfig ++ userSpecifiedConfig
     in bindE (splitIfSet sep (getProp userSpecifiedConfig ''functionsPath''))
          (\<lambda>userSpecifiedFunctionPath.
        bindE (if truthy userSpecifiedFunctionPath
               then map_sum id (\<lambda>xs. Arr (siteRoot @ xs)) (spread userSpecifiedFunctionPath)
               else Inr (getProp defaultConfig ''functionsPath'')) (\<lambda>functionsPath.
        bindE (splitIfSet sep (getProp userSpecifiedConfig ''netlifyGraphPath'')) (\<lambda>u1.
        let netlifyGraphPath =
              js_or (js_or u1 (getProp defaultConfig ''netlifyGraphPath'')) functionsPath
        in bindE (splitIfSet sep (getProp userSpecifiedConfig ''netlifyGraphImplementationFilename''))
             (\<lambda>u2.
        let netlifyGraphImplementationFilename =
              js_or u2 (getProp defaultConfig ''netlifyGraphImplementationFilename'')
        in bindE (splitIfSet sep (getProp userSpecifiedConfig ''netlifyGraphTypeDefinitionsFilename''))
             (\<lambda>u3.
        let netlifyGraphTypeDefinitionsFilename =
              js_or u3 (getProp defaultConfig ''netlifyGraphTypeDefinitionsFilename'')
        in bindE (splitIfSet sep (getProp userSpecifiedConfig ''graphQLOperationsSourceFilename''))
             (\<lambda>u4.
        let graphQLOperationsSourceFilename =
              js_or u4 (getProp defaultConfig ''graphQLOperationsSourceFilename'')
        in bindE (splitIfSet sep (getProp userSpecifiedConfig ''graphQLConfigJsonFilename''))
             (\<lambda>u5.
        let graphQLConfigJsonFilename =
              js_or (js_or u5 (getProp baseConfig ''graphQLConfigJsonFilename''))
                (getProp defaultConfig ''graphQLConfigJsonFilename'')
        in bindE (splitIfSet sep (getProp userSpecifiedConfig ''graphQLSchemaFilename''))
             (\<lambda>u6.
        let graphQLSchemaFilename = js_or u6 (getProp defaultConfig ''graphQLSchemaFilename'')
        in bindE (splitIfSet sep (getProp userSpecifiedConfig ''netlifyGraphRequirePath''))
             (\<lambda>u7.
        let netlifyGraphRequirePath = js_or u7 (getProp defaultConfig ''netlifyGraphRequirePath'')
        in bindE (splitIfSet sep (getProp userSpecifiedConfig ''moduleType''))
             (\<lambda>u8.
        let moduleType = js_or u8 (getProp defaultConfig ''moduleType'');
            language = js_or (getProp userSpecifiedConfig ''language'') autodetectedLanguage
        in bindE (splitIfSet sep (getProp userSpecifiedConfig ''webhookBasePath''))
             (\<lambda>u9.
        let webhookBasePath = js_or u9 (getProp defaultConfig ''webhookBasePath'')
        in bindE (splitIfSet sep (getProp userSpecifiedConfig ''customGeneratorFile''))
             (\<lambda>u10.
        let customGeneratorFile = js_or u10 (getProp defaultConfig ''customGeneratorFile'');
            userSpecifiedFrameworkId =
              js_or (getProp userSpecifiedConfig ''frameworkId'') (getProp defaultConfig ''frameworkId'');
            runtimeTargetEnv =
              js_or (js_or (getProp userSpecifiedConfig ''runtimeTargetEnv'')
                       (getProp defaultConfig ''runtimeTargetEnv''))
                (Str ''node'')
        in Inr (baseConfig ++
             [''functionsPath'' \<mapsto> functionsPath,
              ''webhookBasePath'' \<mapsto> webhookBasePath,
              ''netlifyGraphPath'' \<mapsto> netlifyGraphPath,
              ''netlifyGraphImplementationFilename'' \<mapsto> netlifyGraphImplementationFilename,
              ''netlifyGraphTypeDefinitionsFilename'' \<mapsto> netlifyGraphTypeDefinitionsFilename,
              ''graphQLOperationsSourceFilename'' \<mapsto> graphQLOperationsSourceFilename,
              ''graphQLSchemaFilename'' \<mapsto> graphQLSchemaFilename,
              ''graphQLConfigJsonFilename'' \<mapsto> graphQLConfigJsonFilename,
              ''netlifyGraphRequirePath'' \<mapsto> netlifyGraphRequirePath,
              ''framework'' \<mapsto>
                 js_or (js_or userSpecifiedFrameworkId detectedFrameworkId) (Str ''default''),
              ''language'' \<mapsto> language,
              ''moduleType'' \<mapsto> moduleType,
              ''customGeneratorFile'' \<mapsto> customGeneratorFile,
              ''runtimeTargetEnv'' \<mapsto> runtimeTargetEnv]))))))))))))))))"

text \<open>The settings whose user value is split on the path separator, and the settings every
  framework factory defines.\<close>

definition splitSettings :: "string list" where
  "splitSettings =
     [''netlifyGraphPath'', ''netlifyGraphImplementationFilename'',
      ''netlifyGraphTypeDefinitionsFilename'', ''graphQLOperationsSourceFilename'',
      ''graphQLConfigJsonFilename'', ''graphQLSchemaFilename'', ''netlifyGraphRequirePath'',
      ''moduleType'', ''webhookBasePath'', ''customGeneratorFile'']"

definition frameworkSettings :: "string list" where
  "frameworkSettings =
     [''functionsPath'', ''netlifyGraphPath'', ''netlifyGraphImplementationFilename'',
      ''netlifyGraphTypeDefinitionsFilename'', ''graphQLOperationsSourceFilename'',
      ''graphQLSchemaFilename'', ''netlifyGraphRequirePath'', ''moduleType'',
      ''webhookBasePath'']"

definition noEmptySegments :: "jsval \<Rightarrow> bool" where
  "noEmptySegments v = (case v of Arr xs \<Rightarrow> Str [] \<notin> set xs | _ \<Rightarrow> False)"

section \<open>Effects\<close>

text \<open>
  What the plugin does to the outside is recorded as a trace of events; a computation
  yields an outcome and the events it emitted.  An outcome is a thrown exception, an early
  \<^verbatim>\<open>return\<close> of the handler, or a value to continue with.
\<close>

datatype details = NoDetails | ErrorDetails error | FailedPersistedFunctions "string list"

datatype event =
    ConsoleLog "jsval list"
  | ConsoleWarn string
  | ConsoleError string
  | StatusShow string string
  | FailBuild string details
  | ResolveConfig jsval
  | CreateGraphQLSchemaMutation jsval jsval jsval
  | GeneratePersistedFunctionsSource jsval jsval string jsval
  | MkdirSync string
  | WriteFileSync string string

datatype 'a outcome = Threw error | Returned | Next 'a

type_synonym 'a io = "'a outcome \<times> event list"

definition bindIO :: "'a io \<Rightarrow> ('a \<Rightarrow> 'b io) \<Rightarrow> 'b io" where
  "bindIO m f =
     (case m of
        (Threw e, tr) \<Rightarrow> (Threw e, tr)
      | (Returned, tr) \<Rightarrow> (Returned, tr)
      | (Next x, tr) \<Rightarrow> (case f x of (r, tr') \<Rightarrow> (r, tr @ tr')))"

definition ret :: "'a \<Rightarrow> 'a io" where
  "ret x = (Next x, [])"

definition emit :: "event \<Rightarrow> unit io" where
  "emit ev = (Next (), [ev])"

definition liftE :: "error + 'a \<Rightarrow> 'a io" where
  "liftE m = (case m of Inl e \<Rightarrow> (Threw e, []) | Inr x \<Rightarrow> (Next x, []))"

definition returnEarly :: "'a io" where
  "returnEarly = (Returned, [])"

section \<open>GraphQL documents and the surroundings of a build\<close>

record 'd document =
  kind :: string
  definitions :: "'d list"

record 'd operationFile =
  name :: string
  path :: string
  content :: string
  parsedOperation :: "'d document"

text \<open>The value of \<^verbatim>\<open>JSON.parse\<close> as far as the plugin looks at it: \<^verbatim>\<open>null\<close>, or a value
  with its \<^verbatim>\<open>enabledServices\<close> property.\<close>

datatype parsedJson = JsonNull | JsonValue jsval

datatype graphQLSchema = GraphQLSchema string

record generated =
  clientSource :: string
  failedPersistedFunctions :: "string list"
  functionDefinitions :: "string list"
  typeDefinitionsSource :: string

text \<open>
  The surroundings of one run of \<^verbatim>\<open>onPreBuild\<close>: the environment variable, the build
  constants, the file system and the external collaborators, each given by the answer it
  returns when called (\<open>Inl\<close>: it throws).  \<open>failBuildThrows\<close> tells whether
  \<^verbatim>\<open>build.failBuild\<close> ends the handler by throwing.  The response of the schema-creation
  mutation is the schema id it carries, \<open>None\<close> for a response without one.  A failed
  persisted function is given by its operation name.  \<open>errorString\<close> is the string
  conversion of a thrown value inside a template literal, which belongs to whoever threw it.
\<close>

record 'd buildEnv =
  NETLIFY_GRAPH_PERSIST_QUERY_TOKEN :: jsval
  CONFIG_PATH :: jsval
  SITE_ID :: jsval
  failBuildThrows :: bool
  resolveConfig :: "error + buildConfig"
  netlifyGraphLib :: netlifyGraphLib
  configEnv :: configEnv
  fs_existsSync :: "string \<Rightarrow> bool"
  fs_readFileSync :: "string \<Rightarrow> error + string"
  fs_readdirSync :: "string \<Rightarrow> error + string list"
  fs_mkdirSync :: "string \<Rightarrow> error option"
  fs_writeFileSync :: "string \<Rightarrow> string \<Rightarrow> error option"
  path_resolve :: "jsval list \<Rightarrow> error + string"
  path_relative :: "string \<Rightarrow> string \<Rightarrow> string"
  JSON_parse :: "string \<Rightarrow> error + parsedJson"
  executeCreateGraphQLSchemaMutation :: "error + jsval option"
  GraphQL_buildSchema :: "string \<Rightarrow> error + graphQLSchema"
  errorString :: "error \<Rightarrow> string"
  GraphQL_parse :: "string \<Rightarrow> error + 'd document"
  GraphQL_print :: "'d document \<Rightarrow> string"
  extractFunctionsFromOperationDoc :: "'d document \<Rightarrow> error + unit"
  generatePersistedFunctionsSource :: "error + generated"

definition newline :: char where
  "newline = CHR 0x0A"

text \<open>\<^verbatim>\<open>path.resolve(...v)\<close>\<close>

definition resolvePath :: "'d buildEnv \<Rightarrow> jsval \<Rightarrow> error + string" where
  "resolvePath env v = bindE (spread v) (path_resolve env)"

definition ensureNetlifyGraphPath :: "'d buildEnv \<Rightarrow> obj \<Rightarrow> unit io" where
  "ensureNetlifyGraphPath env netlifyGraphConfig =
     bindIO (liftE (resolvePath env (getProp netlifyGraphConfig ''netlifyGraphPath''))) (\<lambda>fullPath.
     bindIO (emit (MkdirSync fullPath)) (\<lambda>_.
     liftE (case fs_mkdirSync env fullPath of None \<Rightarrow> Inr () | Some e \<Rightarrow> Inl e)))"

definition readGraphQLSchemaFile :: "'d buildEnv \<Rightarrow> obj \<Rightarrow> string io" where
  "readGraphQLSchemaFile env netlifyGraphConfig =
     bindIO (ensureNetlifyGraphPath env netlifyGraphConfig) (\<lambda>_.
     liftE (bindE (resolvePath env (getProp netlifyGraphConfig ''graphQLSchemaFilename''))
              (fs_readFileSync env)))"

text \<open>The result is \<open>None\<close> for \<^verbatim>\<open>null\<close>.\<close>

definition readLegacyGraphQLOperationsSourceFile :: "'d buildEnv \<Rightarrow> obj \<Rightarrow> string option io" where
  "readLegacyGraphQLOperationsSourceFile env netlifyGraphConfig =
     bindIO (ensureNetlifyGraphPath env netlifyGraphConfig) (\<lambda>_.
     bindIO (liftE (resolvePath env
                      (getProp netlifyGraphConfig ''graphQLOperationsSourceFilename'')))
       (\<lambda>fullFilename.
     if \<not> fs_existsSync env fullFilename then ret None
     else bindIO (liftE (fs_readFileSync env fullFilename)) (\<lambda>source. ret (Some source))))"

text \<open>\<^verbatim>\<open>/.*\.(graphql?)/gi.test(filename)\<close>, on a regular expression made anew for each file: the
  name contains \<^verbatim>\<open>.graphq\<close>, in any letter case.\<close>

definition toLowerCase :: "string \<Rightarrow> string" where
  "toLowerCase s =
     map (\<lambda>c. case map_of (zip ''ABCDEFGHIJKLMNOPQRSTUVWXYZ'' ''abcdefghijklmnopqrstuvwxyz'') c of
                 None \<Rightarrow> c | Some l \<Rightarrow> l) s"

fun containsString :: "string \<Rightarrow> string \<Rightarrow> bool" where
  "containsString p [] = (p = [])"
| "containsString p (x # xs) = (take (length p) (x # xs) = p \<or> containsString p xs)"

definition isOperationFilename :: "string \<Rightarrow> bool" where
  "isOperationFilename filename = containsString ''.graphq'' (toLowerCase filename)"

text \<open>The \<^verbatim>\<open>forEach\<close> over the file names, pushing one entry per operation file.\<close>

fun readOperationFiles ::
  "'d buildEnv \<Rightarrow> string \<Rightarrow> string list \<Rightarrow> error + 'd operationFile list" where
  "readOperationFiles env operationsPath [] = Inr []"
| "readOperationFiles env operationsPath (filename # filenames) =
     (if isOperationFilename filename
      then bindE (path_resolve env [Str operationsPath, Str filename]) (\<lambda>contentPath.
           bindE (fs_readFileSync env contentPath) (\<lambda>content'.
           bindE (path_resolve env [Str operationsPath, Str filename]) (\<lambda>path'.
           bindE (GraphQL_parse env content') (\<lambda>parsed.
           bindE (readOperationFiles env operationsPath filenames) (\<lambda>operationFiles.
           Inr (\<lparr>name = filename, path = path', content = content',
                 parsedOperation = parsed\<rparr> # operationFiles))))))
      else readOperationFiles env operationsPath filenames)"

definition emptyDocDefinitionNode :: "'d document" where
  "emptyDocDefinitionNode = \<lparr>kind = ''Document'', definitions = []\<rparr>"

text \<open>The \<^verbatim>\<open>reduce\<close> over the operation files.\<close>

definition parsedDocOf :: "'d operationFile list \<Rightarrow> 'd document" where
  "parsedDocOf operationFiles =
     foldl (\<lambda>acc file.
              \<lparr>kind = ''Document'',
               definitions = definitions acc @ definitions (parsedOperation file)\<rparr>)
       emptyDocDefinitionNode operationFiles"

definition readGraphQLOperationsSourceFiles :: "'d buildEnv \<Rightarrow> obj \<Rightarrow> string io" where
  "readGraphQLOperationsSourceFiles env netlifyGraphConfig =
     bindIO (ensureNetlifyGraphPath env netlifyGraphConfig) (\<lambda>_.
     bindIO (liftE (resolvePath env
                      (getProp netlifyGraphConfig ''graphQLOperationsSourceDirectory'')))
       (\<lambda>operationsPath.
     bindIO (liftE (fs_readdirSync env operationsPath)) (\<lambda>filenames.
     bindIO (emit (ConsoleLog [Str ''operationsPath'', Str operationsPath])) (\<lambda>_.
     bindIO (emit (ConsoleLog [Str ''filenames'', Arr (map Str filenames)])) (\<lambda>_.
     bindIO (liftE (readOperationFiles env operationsPath filenames)) (\<lambda>operationFiles.
     let parsedDoc = parsedDocOf operationFiles;
         source = GraphQL_print env parsedDoc
     in bindIO (emit (ConsoleLog [Str ''GraphQL source'', Str source])) (\<lambda>_.
        ret source)))))))"

section \<open>Generating the client\<close>

definition writeFileSync :: "'d buildEnv \<Rightarrow> string \<Rightarrow> string \<Rightarrow> unit io" where
  "writeFileSync env file data =
     bindIO (emit (WriteFileSync file data)) (\<lambda>_.
     liftE (case fs_writeFileSync env file data of None \<Rightarrow> Inr () | Some e \<Rightarrow> Inl e))"

definition generatePersistedFunctionsFile ::
  "'d buildEnv \<Rightarrow> obj \<Rightarrow> jsval \<Rightarrow> string \<Rightarrow> jsval \<Rightarrow> jsval
     \<Rightarrow> (string list \<times> string list) io" where
  "generatePersistedFunctionsFile env netlifyGraphConfig netlifyToken operationsDoc schemaId siteId =
     bindIO (emit (GeneratePersistedFunctionsSource netlifyToken siteId operationsDoc schemaId))
       (\<lambda>_.
     bindIO (liftE (generatePersistedFunctionsSource env)) (\<lambda>g.
     bindIO (ensureNetlifyGraphPath env netlifyGraphConfig) (\<lambda>_.
     bindIO (liftE (resolvePath env
                      (getProp netlifyGraphConfig ''netlifyGraphImplementationFilename'')))
       (\<lambda>implementationResolvedPath.
     bindIO (writeFileSync env implementationResolvedPath (clientSource g)) (\<lambda>_.
     let implementationRelativePath =
           path_relative env (cwd (configEnv env)) implementationResolvedPath
     in bindIO (emit (ConsoleLog [Str (''Wrote '' @ implementationRelativePath)])) (\<lambda>_.
     bindIO (liftE (resolvePath env
                      (getProp netlifyGraphConfig ''netlifyGraphTypeDefinitionsFilename'')))
       (\<lambda>typeDefinitionsResolvedPath.
     bindIO (writeFileSync env typeDefinitionsResolvedPath (typeDefinitionsSource g)) (\<lambda>_.
     let typeDefinitionsRelativePath =
           path_relative env (cwd (configEnv env)) typeDefinitionsResolvedPath
     in bindIO (emit (ConsoleLog [Str (''Wrote '' @ typeDefinitionsRelativePath)])) (\<lambda>_.
     bindIO (emit (ConsoleLog
                     [Str (implementationRelativePath @ '':'' @ [newline] @ clientSource g)]))
       (\<lambda>_.
     bindIO (emit (ConsoleLog
                     [Str (typeDefinitionsRelativePath @ '':'' @ [newline] @
                           typeDefinitionsSource g)]))
       (\<lambda>_.
     ret (failedPersistedFunctions g, functionDefinitions g))))))))))))"

section \<open>The build handler\<close>

definition failBuild :: "'d buildEnv \<Rightarrow> string \<Rightarrow> details \<Rightarrow> unit io" where
  "failBuild env message info =
     bindIO (emit (FailBuild message info)) (\<lambda>_.
     if failBuildThrows env then (Threw (BuildFailure message), []) else ret ())"

definition isWhiteSpace :: "char \<Rightarrow> bool" where
  "isWhiteSpace c = (c \<in> set [CHR 0x09, CHR 0x0A, CHR 0x0B, CHR 0x0C, CHR 0x0D, CHR '' ''])"

definition trim :: "string \<Rightarrow> string" where
  "trim s = rev (dropWhile isWhiteSpace (rev (dropWhile isWhiteSpace s)))"

fun joinWith :: "string \<Rightarrow> string list \<Rightarrow> string" where
  "joinWith s [] = []"
| "joinWith s [x] = x"
| "joinWith s (x # y # ys) = x @ s @ joinWith s (y # ys)"

fun showNat :: "nat \<Rightarrow> string" where
  "showNat n =
     (if n < 10 then [char_of (48 + n)] else showNat (n div 10) @ [char_of (48 + n mod 10)])"

definition missingTokenWarning :: string where
  "missingTokenWarning =
     ''Missing the NETLIFY_GRAPH_PERSIST_QUERY_TOKEN enviroment variable, '' @
     ''skipping production Netlify Graph client generation.'' @ [newline, newline] @
     ''Run `netlify graph:init` to generate a new token.''"

definition missingTokenTitle :: string where
  "missingTokenTitle = ''Netlify Graph Build Plugin: Missing NETLIFY_GRAPH_PERSIST_QUERY_TOKEN''"

definition missingTokenSummary :: string where
  "missingTokenSummary =
     ''Skipped production Netlify Graph client generation due to missing token'' @
     [newline, newline] @ ''      Run `netlify graph:init` to generate a new token''"

definition netlifyGraphJsonHint :: string where
  "netlifyGraphJsonHint =
     ''Error reading netlifyGraph.json. Be sure to run `netlify graph:init` '' @
     ''and commit the resulting json file.''"

definition legacyLibraryMessage :: string where
  "legacyLibraryMessage =
     ''Found legacy single-file operations library. Run `netlify graph:library` to migrate''"

definition noOperationsWarning :: string where
  "noOperationsWarning =
     ''No Graph operations library found, skipping production client generation.''"

text \<open>Lines 504 to 514: the build configuration is resolved and the Netlify Graph
  configuration derived from it.\<close>

definition resolveNetlifyGraphConfig :: "'d buildEnv \<Rightarrow> obj io" where
  "resolveNetlifyGraphConfig env =
     bindIO (emit (ResolveConfig (CONFIG_PATH env))) (\<lambda>_.
     bindIO (liftE (resolveConfig env)) (\<lambda>config.
     liftE (getNetlifyGraphConfig (netlifyGraphLib env) (configEnv env) config)))"

text \<open>Lines 516 to 528: the state file is read and parsed; \<open>None\<close> is the variable left
  \<^verbatim>\<open>undefined\<close> when \<^verbatim>\<open>failBuild\<close> returns.\<close>

definition readNetlifyGraphJson :: "'d buildEnv \<Rightarrow> parsedJson option io" where
  "readNetlifyGraphJson env =
     (case bindE (fs_readFileSync env ''netlifyGraph.json'') (JSON_parse env) of
        Inr netlifyGraphJson \<Rightarrow> ret (Some netlifyGraphJson)
      | Inl e \<Rightarrow> bindIO (failBuild env netlifyGraphJsonHint (ErrorDetails e)) (\<lambda>_. ret None))"

text \<open>Lines 530 to 557: the schema is created remotely and its id read from the response.\<close>

definition createGraphQLSchema :: "'d buildEnv \<Rightarrow> jsval \<Rightarrow> parsedJson option \<Rightarrow> jsval io" where
  "createGraphQLSchema env netlifyToken netlifyGraphJson =
     bindIO (emit (ConsoleLog [Str ''Creating a new Netlify Graph schema''])) (\<lambda>_.
     bindIO (liftE (case netlifyGraphJson of
                      Some (JsonValue enabledServices) \<Rightarrow> Inr enabledServices
                    | _ \<Rightarrow> Inl (TypeError ''Cannot read properties of enabledServices'')))
       (\<lambda>enabledServices.
     bindIO (emit (CreateGraphQLSchemaMutation (SITE_ID env) enabledServices netlifyToken)) (\<lambda>_.
     bindIO (liftE (executeCreateGraphQLSchemaMutation env)) (\<lambda>createGraphQLSchemaResult.
     bindIO (emit (ConsoleLog
                     [Str ''Created a new Netlify Graph schema'',
                      (case createGraphQLSchemaResult of None \<Rightarrow> Undefined | Some i \<Rightarrow> i)]))
       (\<lambda>_.
     liftE (case createGraphQLSchemaResult of
              None \<Rightarrow> Inl (TypeError ''Cannot read properties of the mutation result'')
            | Some newSchemaId \<Rightarrow> Inr newSchemaId))))))"

text \<open>Lines 559 to 567: the schema file is read and built; \<open>None\<close> is the variable left
  \<^verbatim>\<open>undefined\<close> when building throws.\<close>

definition buildGraphQLSchema :: "'d buildEnv \<Rightarrow> obj \<Rightarrow> graphQLSchema option io" where
  "buildGraphQLSchema env netlifyGraphConfig =
     bindIO (readGraphQLSchemaFile env netlifyGraphConfig) (\<lambda>schemaString.
     case GraphQL_buildSchema env schemaString of
       Inr schema \<Rightarrow> ret (Some schema)
     | Inl buildSchemaError \<Rightarrow>
         bindIO (emit (ConsoleError
                         (''Error parsing schema: '' @ errorString env buildSchemaError)))
           (\<lambda>_. ret None))"

text \<open>Lines 574 to 578.\<close>

definition rejectLegacyLibrary :: "'d buildEnv \<Rightarrow> string option \<Rightarrow> unit io" where
  "rejectLegacyLibrary env legacySourceGraphQLFile =
     (case legacySourceGraphQLFile of
        None \<Rightarrow> ret ()
      | Some source \<Rightarrow>
          if source \<noteq> [] then failBuild env legacyLibraryMessage NoDetails else ret ())"

text \<open>Lines 589 to 629.\<close>

definition persistOperations ::
  "'d buildEnv \<Rightarrow> jsval \<Rightarrow> obj \<Rightarrow> jsval \<Rightarrow> string \<Rightarrow> unit io" where
  "persistOperations env netlifyToken netlifyGraphConfig newSchemaId currentOperationsDoc =
     bindIO (liftE (GraphQL_parse env currentOperationsDoc)) (\<lambda>parsedDoc.
     bindIO (liftE (extractFunctionsFromOperationDoc env parsedDoc)) (\<lambda>_.
     bindIO (generatePersistedFunctionsFile env netlifyGraphConfig netlifyToken
               currentOperationsDoc newSchemaId (SITE_ID env))
       (\<lambda>(failedPersistedFunctions, functionDefinitions).
     if length failedPersistedFunctions > 0
     then let failedFunctionNames = failedPersistedFunctions
          in bindIO (emit (StatusShow
                             (''Netlify Graph Build Plugin: Failed to persist '' @
                              showNat (length failedFunctionNames) @ '' Graph functions'')
                             ''See the log for details'')) (\<lambda>_.
             failBuild env
               (''Error persisting Netlify Graph operations for production: ['' @
                joinWith '', '' failedFunctionNames @ '']'')
               (FailedPersistedFunctions failedPersistedFunctions))
     else emit (StatusShow
                  (''Netlify Graph Build Plugin: Successfully persisted '' @
                   showNat (length functionDefinitions) @ '' Graph functions'')
                  ''See the log for details''))))"

text \<open>The \<^verbatim>\<open>try\<close> block, lines 503 to 629.\<close>

definition tryBlock :: "'d buildEnv \<Rightarrow> jsval \<Rightarrow> unit io" where
  "tryBlock env netlifyToken =
     bindIO (resolveNetlifyGraphConfig env) (\<lambda>netlifyGraphConfig.
     bindIO (readNetlifyGraphJson env) (\<lambda>netlifyGraphJson.
     bindIO (createGraphQLSchema env netlifyToken netlifyGraphJson) (\<lambda>newSchemaId.
     bindIO (buildGraphQLSchema env netlifyGraphConfig) (\<lambda>schema.
     case schema of
       None \<Rightarrow>
         bindIO (emit (ConsoleError ''Failed to parse Netlify GraphQL schema'')) (\<lambda>_. returnEarly)
     | Some _ \<Rightarrow>
         bindIO (readLegacyGraphQLOperationsSourceFile env netlifyGraphConfig)
           (\<lambda>legacySourceGraphQLFile.
         bindIO (rejectLegacyLibrary env legacySourceGraphQLFile) (\<lambda>_.
         bindIO (readGraphQLOperationsSourceFiles env netlifyGraphConfig) (\<lambda>currentOperationsDoc.
         if length (trim currentOperationsDoc) = 0
         then bindIO (emit (ConsoleWarn noOperationsWarning)) (\<lambda>_. returnEarly)
         else persistOperations env netlifyToken netlifyGraphConfig newSchemaId
                currentOperationsDoc)))))))"

definition onPreBuild :: "'d buildEnv \<Rightarrow> unit io" where
  "onPreBuild env =
    (let netlifyToken = NETLIFY_GRAPH_PERSIST_QUERY_TOKEN env
     in if \<not> truthy netlifyToken
        then bindIO (emit (ConsoleWarn missingTokenWarning)) (\<lambda>_.
             bindIO (emit (StatusShow missingTokenTitle missingTokenSummary)) (\<lambda>_.
             returnEarly))
        else (case tryBlock env netlifyToken of
                (Threw e, tr) \<Rightarrow>
                  bindIO (Next (), tr) (\<lambda>_.
                  failBuild env ''Error generating a production Netlify Graph client''
                    (ErrorDetails e))
              | r \<Rightarrow> r))"

definition isFailBuild :: "event \<Rightarrow> bool" where
  "isFailBuild ev = (case ev of FailBuild _ _ \<Rightarrow> True | _ \<Rightarrow> False)"

definition isRemoteCall :: "event \<Rightarrow> bool" where
  "isRemoteCall ev =
     (case ev of
        ResolveConfig _ \<Rightarrow> True
      | CreateGraphQLSchemaMutation _ _ _ \<Rightarrow> True
      | GeneratePersistedFunctionsSource _ _ _ _ \<Rightarrow> True
      | _ \<Rightarrow> False)"

definition isGeneratorCall :: "event \<Rightarrow> bool" where
  "isGeneratorCall ev = (case ev of GeneratePersistedFunctionsSource _ _ _ _ \<Rightarrow> True | _ \<Rightarrow> False)"

section \<open>Example inputs\<close>

text \<open>Concrete inputs on which the theorems below are instantiated: a set of package
  constants, a Next.js site with a TypeScript project file, and a user configuration that
  sets three of the settings.\<close>

definition exampleLib :: netlifyGraphLib where
  "exampleLib =
     \<lparr>defaultSourceOperationsFilename = Str ''netlifyGraphOperationsLibrary.graphql'',
      defaultSourceOperationsDirectoryName = Arr [Str ''operations''],
      defaultGraphQLSchemaFilename = Str ''netlifyGraphSchema.graphql'',
      defaultNetlifyGraphConfig =
        [''extension'' \<mapsto> Str ''js'',
         ''netlifyGraphPath'' \<mapsto> Arr [Str ''netlify'', Str ''functions'', Str ''netlifyGraph''],
         ''graphQLOperationsSourceDirectory'' \<mapsto>
            Arr [Str ''netlify'', Str ''functions'', Str ''netlifyGraph'', Str ''operations''],
         ''moduleType'' \<mapsto> Str ''commonjs'',
         ''language'' \<mapsto> Str ''javascript'',
         ''runtimeTargetEnv'' \<mapsto> Str ''node'']\<rparr>"

text \<open>The same constants with the operations directory name given as a string.\<close>

definition stringNameLib :: netlifyGraphLib where
  "stringNameLib = exampleLib\<lparr>defaultSourceOperationsDirectoryName := Str ''operations''\<rparr>"

definition exampleEnv :: configEnv where
  "exampleEnv =
     \<lparr>path_sep = CHR ''/'', cwd = ''/opt/build/repo'', listFrameworks = Inr [''next''],
      tsconfigExists = True\<rparr>"

definition exampleConfig :: buildConfig where
  "exampleConfig =
     \<lparr>graph = Some [''webhookBasePath'' \<mapsto> Str ''hooks/graph'',
                    ''functionsPath'' \<mapsto> Str ''fns'',
                    ''language'' \<mapsto> Str ''javascript''],
      functionsDirectory = Undefined\<rparr>"

text \<open>A user configuration that gives four settings as the empty string.\<close>

definition emptyStringConfig :: buildConfig where
  "emptyStringConfig =
     \<lparr>graph = Some [''language'' \<mapsto> Str [],
                    ''runtimeTargetEnv'' \<mapsto> Str [],
                    ''frameworkId'' \<mapsto> Str [],
                    ''netlifyGraphPath'' \<mapsto> Str []],
      functionsDirectory = Undefined\<rparr>"

definition plainConfig :: buildConfig where
  "plainConfig = \<lparr>graph = None, functionsDirectory = Undefined\<rparr>"

definition exampleContext :: factoryContext where
  "exampleContext =
     \<lparr>baseConfig = [''extension'' \<mapsto> Str ''js''],
      detectedFunctionsPath = [Str ''/'', Str ''netlify'', Str [], Str ''functions''],
      siteRoot = [Str ''/'', Str ''repo'']\<rparr>"

text \<open>A run of the handler on a Next.js site: a token, a state file, a schema file, an
  operations directory with two operation files and one other file, no legacy library,
  and collaborators that succeed.  Paths resolve by joining their segments with single slashes.\<close>

fun squeezeSlashes :: "string \<Rightarrow> string" where
  "squeezeSlashes (x # y # ys) =
     (if x = CHR ''/'' \<and> y = CHR ''/'' then squeezeSlashes (y # ys)
      else x # squeezeSlashes (y # ys))"
| "squeezeSlashes xs = xs"

definition examplePathResolve :: "jsval list \<Rightarrow> error + string" where
  "examplePathResolve segs = Inr (squeezeSlashes (''/'' @ joinWith ''/'' (map js_toString segs)))"

definition exampleLegacyPath :: string where
  "exampleLegacyPath =
     ''/opt/build/repo/lib/netlifyGraph/netlifyGraphOperationsLibrary.graphql''"

definition exampleFiles :: "(string \<times> string) list" where
  "exampleFiles =
     [(''netlifyGraph.json'', ''{}''),
      (''/opt/build/repo/lib/netlifyGraph/netlifyGraphSchema.graphql'', ''type Query''),
      (exampleLegacyPath, ''query Old''),
      (''/netlify/functions/netlifyGraph/operations/A.graphql'', ''query A''),
      (''/netlify/functions/netlifyGraph/operations/B.graphql'',
         ''query B'' @ [newline] @ ''fragment C'')]"

definition exampleBuild :: "string buildEnv" where
  "exampleBuild =
     \<lparr>NETLIFY_GRAPH_PERSIST_QUERY_TOKEN = Str ''token'',
      CONFIG_PATH = Str ''/opt/build/repo/netlify.toml'',
      SITE_ID = Str ''site-1'',
      failBuildThrows = True,
      resolveConfig = Inr plainConfig,
      netlifyGraphLib = exampleLib,
      configEnv = exampleEnv,
      fs_existsSync = (\<lambda>p. False),
      fs_readFileSync =
        (\<lambda>p. case map_of exampleFiles p of
               None \<Rightarrow> Inl (Rejected ''ENOENT'') | Some c \<Rightarrow> Inr c),
      fs_readdirSync = (\<lambda>p. Inr [''A.graphql'', ''notes.txt'', ''B.graphql'']),
      fs_mkdirSync = (\<lambda>p. None),
      fs_writeFileSync = (\<lambda>p d. None),
      path_resolve = examplePathResolve,
      path_relative = (\<lambda>from to. to),
      JSON_parse = (\<lambda>s. Inr (JsonValue (Arr [Str ''GITHUB'']))),
      executeCreateGraphQLSchemaMutation = Inr (Some (Str ''schema-1'')),
      GraphQL_buildSchema = (\<lambda>s. Inr (GraphQLSchema s)),
      errorString =
        (\<lambda>e. case e of TypeError m \<Rightarrow> ''TypeError: '' @ m | Rejected m \<Rightarrow> m
                         | BuildFailure m \<Rightarrow> m),
      GraphQL_parse =
        (\<lambda>s. Inr \<lparr>kind = ''Document'',
                    definitions = filter (\<lambda>d. d \<noteq> []) (split_sep newline s)\<rparr>),
      GraphQL_print = (\<lambda>doc. joinWith [newline] (definitions doc)),
      extractFunctionsFromOperationDoc = (\<lambda>doc. Inr ()),
      generatePersistedFunctionsSource =
        Inr \<lparr>clientSource = ''client'', failedPersistedFunctions = [],
             functionDefinitions = [''A'', ''B''], typeDefinitionsSource = ''types''\<rparr>\<rparr>"

text \<open>The configuration \<^verbatim>\<open>getNetlifyGraphConfig\<close> returns in that run.\<close>

definition exampleResolved :: obj where
  "exampleResolved =
     (case getNetlifyGraphConfig exampleLib exampleEnv plainConfig of
        Inr c \<Rightarrow> c | Inl _ \<Rightarrow> Map.empty)"

text \<open>Variations: no token; no state file; a schema that does not build; a legacy library
  present, with content and empty; an operations directory without operation files.\<close>

definition missingTokenBuild :: "string buildEnv" where
  "missingTokenBuild = exampleBuild\<lparr>NETLIFY_GRAPH_PERSIST_QUERY_TOKEN := Undefined\<rparr>"

definition missingJsonBuild :: "string buildEnv" where
  "missingJsonBuild =
     exampleBuild\<lparr>fs_readFileSync :=
       (\<lambda>p. if p = ''netlifyGraph.json'' then Inl (Rejected ''ENOENT'')
            else fs_readFileSync exampleBuild p)\<rparr>"

definition badSchemaBuild :: "string buildEnv" where
  "badSchemaBuild =
     exampleBuild\<lparr>GraphQL_buildSchema := (\<lambda>s. Inl (Rejected ''Syntax Error''))\<rparr>"

definition legacyBuild :: "string buildEnv" where
  "legacyBuild = exampleBuild\<lparr>fs_existsSync := (\<lambda>p. p = exampleLegacyPath)\<rparr>"

definition emptyLegacyBuild :: "string buildEnv" where
  "emptyLegacyBuild =
     legacyBuild\<lparr>fs_readFileSync :=
       (\<lambda>p. if p = exampleLegacyPath then Inr [] else fs_readFileSync exampleBuild p)\<rparr>"

definition noOperationsBuild :: "string buildEnv" where
  "noOperationsBuild = exampleBuild\<lparr>fs_readdirSync := (\<lambda>p. Inr [''notes.txt''])\<rparr>"

section \<open>Properties of the configuration\<close>

lemmas example_defs = exampleLib_def exampleEnv_def exampleConfig_def plainConfig_def
  exampleContext_def

lemmas factory_defs =
  defaultFrameworkLookup_def makeDefaultNetlifyGraphConfig_def
  makeDefaultNextJsNetlifyGraphConfig_def makeDefaultRemixNetlifyGraphConfig_def
  filterRelativePathItems_def

lemmas framework_defs =
  defaultFrameworkConfigOf_def detectedFunctionsPathOf_def detectedFrameworkIdOf_def
  siteRootOf_def userSpecifiedConfigOf_def factory_defs js_split_def spread_def js_or_def
  bindE_def getProp_def Let_def

lemma bindE_Inr_iff: "bindE m f = Inr y \<longleftrightarrow> (\<exists>x. m = Inr x \<and> f x = Inr y)"
  by (cases m) (simp_all add: bindE_def)

lemma bindE_returnsI: "m = Inr x \<Longrightarrow> \<exists>y. f x = Inr y \<Longrightarrow> \<exists>y. bindE m f = Inr y"
  by (simp add: bindE_def)

lemma splitIfSet_total:
  "(\<forall>xs. u \<noteq> Arr xs) \<Longrightarrow>
     \<exists>v. splitIfSet c u = Inr v \<and> (truthy v \<longrightarrow> (\<exists>xs. v = Arr xs))"
  by (cases u) (auto simp: splitIfSet_def js_split_def)

lemma bindE_splitIfSet_returnsI:
  assumes "\<forall>xs. u \<noteq> Arr xs"
      and "\<And>v. truthy v \<longrightarrow> (\<exists>xs. v = Arr xs) \<Longrightarrow> \<exists>y. f v = Inr y"
  shows "\<exists>y. bindE (splitIfSet c u) f = Inr y"
  using splitIfSet_total[OF assms(1), of c] assms(2) by (auto simp: bindE_def)

lemma bindE_spread_returnsI:
  assumes "truthy v \<longrightarrow> (\<exists>xs. v = Arr xs)" and "\<And>p. \<exists>y. f p = Inr y"
  shows "\<exists>y. bindE (if truthy v then map_sum id g (spread v) else Inr d) f = Inr y"
  using assms by (auto simp: bindE_def spread_def)

text \<open>The function returns a configuration whenever the framework detector answers, the
  framework factory returns, and no setting that is split holds an array.\<close>

lemma getNetlifyGraphConfig_returns:
  assumes "listFrameworks env = Inr frameworks"
      and "defaultFrameworkConfigOf lib env config frameworks = Inr fw"
      and "\<forall>k\<in>set (''functionsPath'' # splitSettings).
             \<forall>xs. userSpecifiedConfigOf config k \<noteq> Some (Arr xs)"
  shows "\<exists>cfg. getNetlifyGraphConfig lib env config = Inr cfg"
proof -
  have nonarr: "\<And>k. k \<in> set (''functionsPath'' # splitSettings) \<Longrightarrow>
       \<forall>xs. getProp (userSpecifiedConfigOf config) k \<noteq> Arr xs"
    using assms(3) by (auto simp: getProp_def split: option.splits)
  show ?thesis
    unfolding getNetlifyGraphConfig_def Let_def
    apply (rule bindE_returnsI[OF assms(1)])
    apply (rule bindE_returnsI[OF assms(2)])
    apply (rule bindE_splitIfSet_returnsI, rule nonarr, simp)
    apply (rule bindE_spread_returnsI, assumption)
    apply (rule bindE_splitIfSet_returnsI, rule nonarr, simp add: splitSettings_def)+
    apply simp
    done
qed

lemma user_layer_split:
  assumes "getNetlifyGraphConfig lib env config = Inr cfg"
      and "k \<in> set splitSettings"
      and "userSpecifiedConfigOf config k = Some (Str s)" and "s \<noteq> []"
  shows "getProp cfg k = Arr (map Str (split_sep (path_sep env) s))"
  using assms
  by (auto simp: getNetlifyGraphConfig_def Let_def bindE_Inr_iff getProp_def js_or_def
      splitSettings_def splitIfSet_def js_split_def)

lemma user_layer_functionsPath:
  assumes "getNetlifyGraphConfig lib env config = Inr cfg"
      and "userSpecifiedConfigOf config ''functionsPath'' = Some (Str s)" and "s \<noteq> []"
  shows "getProp cfg ''functionsPath'' =
           Arr (siteRootOf env @ map Str (split_sep (path_sep env) s))"
  using assms
  by (auto simp: getNetlifyGraphConfig_def Let_def bindE_Inr_iff getProp_def js_or_def
      splitIfSet_def js_split_def spread_def)

lemma user_layer_plain:
  assumes "getNetlifyGraphConfig lib env config = Inr cfg"
      and "userSpecifiedConfigOf config k = Some v" and "truthy v"
  shows "k = ''language'' \<longrightarrow> getProp cfg ''language'' = v"
    and "k = ''runtimeTargetEnv'' \<longrightarrow> getProp cfg ''runtimeTargetEnv'' = v"
    and "k = ''frameworkId'' \<longrightarrow> getProp cfg ''framework'' = v"
  using assms
  by (auto simp: getNetlifyGraphConfig_def Let_def bindE_Inr_iff getProp_def js_or_def)

lemma framework_defines:
  assumes "defaultFrameworkConfigOf lib env config frameworks = Inr fw"
      and "k \<in> set frameworkSettings"
  shows "\<exists>v. fw k = Some v \<and> truthy v"
  using assms
  by (auto simp: defaultFrameworkConfigOf_def factory_defs Let_def bindE_Inr_iff
      frameworkSettings_def js_or_def split: if_splits)

lemma framework_leaves:
  assumes "defaultFrameworkConfigOf lib env config frameworks = Inr fw"
  shows "fw ''graphQLConfigJsonFilename'' = None \<and> fw ''customGeneratorFile'' = None
    \<and> fw ''runtimeTargetEnv'' = None \<and> fw ''frameworkId'' = None"
  using assms
  by (auto simp: defaultFrameworkConfigOf_def factory_defs Let_def bindE_Inr_iff
      split: if_splits)

lemma framework_layer:
  assumes "getNetlifyGraphConfig lib env config = Inr cfg"
      and "listFrameworks env = Inr frameworks"
      and "defaultFrameworkConfigOf lib env config frameworks = Inr fw"
      and "k \<in> set frameworkSettings"
      and "userSpecifiedConfigOf config k = None"
  shows "getProp cfg k = getProp fw k"
proof -
  obtain v where v: "fw k = Some v" "truthy v"
    using framework_defines[OF assms(3,4)] by blast
  show ?thesis
    using assms v
    by (auto simp: getNetlifyGraphConfig_def Let_def bindE_Inr_iff getProp_def js_or_def
      frameworkSettings_def splitIfSet_def map_add_def)
qed

lemma base_layer:
  assumes "getNetlifyGraphConfig lib env config = Inr cfg"
      and "listFrameworks env = Inr frameworks"
      and "userSpecifiedConfigOf config k = None"
  shows "k = ''graphQLConfigJsonFilename'' \<longrightarrow>
           getProp cfg k = getProp (defaultNetlifyGraphConfig lib) k"
    and "k = ''customGeneratorFile'' \<longrightarrow>
           getProp cfg k = getProp (defaultNetlifyGraphConfig lib) k"
    and "k = ''runtimeTargetEnv'' \<longrightarrow>
           getProp cfg k = js_or (getProp (defaultNetlifyGraphConfig lib) k) (Str ''node'')"
  using assms
  by (auto simp: getNetlifyGraphConfig_def Let_def bindE_Inr_iff getProp_def js_or_def
      splitIfSet_def map_add_def dest!: framework_leaves)

lemma example_framework:
  "\<exists>fw. defaultFrameworkConfigOf exampleLib exampleEnv exampleConfig [''next''] = Inr fw \<and>
     getProp fw ''netlifyGraphPath'' =
       Arr [Str ''/'', Str ''opt'', Str ''build'', Str ''repo'', Str ''lib'', Str ''netlifyGraph''] \<and>
     getProp fw ''moduleType'' = Str ''commonjs''"
  by (simp add: framework_defs example_defs)

lemma example_user:
  "userSpecifiedConfigOf exampleConfig ''webhookBasePath'' = Some (Str ''hooks/graph'')"
  "userSpecifiedConfigOf exampleConfig ''functionsPath'' = Some (Str ''fns'')"
  "userSpecifiedConfigOf exampleConfig ''language'' = Some (Str ''javascript'')"
  "k \<notin> {''webhookBasePath'', ''functionsPath'', ''language''} \<Longrightarrow>
     userSpecifiedConfigOf exampleConfig k = None"
  by (simp_all add: userSpecifiedConfigOf_def exampleConfig_def)

lemma example_returns:
  "\<exists>cfg. getNetlifyGraphConfig exampleLib exampleEnv exampleConfig = Inr cfg"
proof -
  obtain fw where fw: "defaultFrameworkConfigOf exampleLib exampleEnv exampleConfig [''next''] = Inr fw"
    using example_framework by blast
  have fws: "listFrameworks exampleEnv = Inr [''next'']"
    by (simp add: exampleEnv_def)
  have "\<forall>k\<in>set (''functionsPath'' # splitSettings).
      \<forall>xs. userSpecifiedConfigOf exampleConfig k \<noteq> Some (Arr xs)"
    by (simp add: splitSettings_def userSpecifiedConfigOf_def exampleConfig_def)
  then show ?thesis
    by (rule getNetlifyGraphConfig_returns[OF fws fw])
qed

lemma plain_returns:
  "\<exists>cfg. getNetlifyGraphConfig exampleLib exampleEnv plainConfig = Inr cfg"
proof -
  have "\<exists>fw. defaultFrameworkConfigOf exampleLib exampleEnv plainConfig [''next''] = Inr fw"
    by (simp add: framework_defs example_defs)
  then obtain fw where fw: "defaultFrameworkConfigOf exampleLib exampleEnv plainConfig [''next''] = Inr fw"
    by blast
  have fws: "listFrameworks exampleEnv = Inr [''next'']"
    by (simp add: exampleEnv_def)
  have "\<forall>k\<in>set (''functionsPath'' # splitSettings).
      \<forall>xs. userSpecifiedConfigOf plainConfig k \<noteq> Some (Arr xs)"
    by (simp add: splitSettings_def userSpecifiedConfigOf_def plainConfig_def)
  then show ?thesis
    by (rule getNetlifyGraphConfig_returns[OF fws fw])
qed

text \<open>The layers of the resolution, for a setting the user gives as a non-empty string or
  leaves out.\<close>

lemma precedence_layers:
  assumes run: "getNetlifyGraphConfig lib env config = Inr cfg"
      and fws: "listFrameworks env = Inr frameworks"
      and fw: "defaultFrameworkConfigOf lib env config frameworks = Inr fw"
  shows
   "(\<forall>k\<in>set splitSettings. \<forall>s. userSpecifiedConfigOf config k = Some (Str s) \<and> s \<noteq> [] \<longrightarrow>
        getProp cfg k = Arr (map Str (split_sep (path_sep env) s))) \<and>
    (\<forall>s. userSpecifiedConfigOf config ''functionsPath'' = Some (Str s) \<and> s \<noteq> [] \<longrightarrow>
        getProp cfg ''functionsPath'' =
          Arr (siteRootOf env @ map Str (split_sep (path_sep env) s))) \<and>
    (\<forall>v. userSpecifiedConfigOf config ''language'' = Some v \<and> truthy v \<longrightarrow>
        getProp cfg ''language'' = v) \<and>
    (\<forall>v. userSpecifiedConfigOf config ''runtimeTargetEnv'' = Some v \<and> truthy v \<longrightarrow>
        getProp cfg ''runtimeTargetEnv'' = v) \<and>
    (\<forall>v. userSpecifiedConfigOf config ''frameworkId'' = Some v \<and> truthy v \<longrightarrow>
        getProp cfg ''framework'' = v) \<and>
    (\<forall>k\<in>set frameworkSettings. userSpecifiedConfigOf config k = None \<longrightarrow>
        fw k \<noteq> None \<and> getProp cfg k = getProp fw k) \<and>
    (\<forall>k\<in>set [''graphQLConfigJsonFilename'', ''customGeneratorFile''].
        userSpecifiedConfigOf config k = None \<longrightarrow>
        fw k = None \<and> getProp cfg k = getProp (defaultNetlifyGraphConfig lib) k) \<and>
    (userSpecifiedConfigOf config ''runtimeTargetEnv'' = None \<longrightarrow>
        fw ''runtimeTargetEnv'' = None \<and>
        getProp cfg ''runtimeTargetEnv'' =
          js_or (getProp (defaultNetlifyGraphConfig lib) ''runtimeTargetEnv'') (Str ''node''))"
proof (intro conjI ballI allI impI)
  fix k s
  assume "k \<in> set splitSettings" "userSpecifiedConfigOf config k = Some (Str s) \<and> s \<noteq> []"
  then show "getProp cfg k = Arr (map Str (split_sep (path_sep env) s))"
    using user_layer_split[OF run] by blast
next
  fix s assume "userSpecifiedConfigOf config ''functionsPath'' = Some (Str s) \<and> s \<noteq> []"
  then show "getProp cfg ''functionsPath'' =
          Arr (siteRootOf env @ map Str (split_sep (path_sep env) s))"
    using user_layer_functionsPath[OF run] by blast
next
  fix v assume "userSpecifiedConfigOf config ''language'' = Some v \<and> truthy v"
  then show "getProp cfg ''language'' = v" using user_layer_plain(1)[OF run] by blast
next
  fix v assume "userSpecifiedConfigOf config ''runtimeTargetEnv'' = Some v \<and> truthy v"
  then show "getProp cfg ''runtimeTargetEnv'' = v" using user_layer_plain(2)[OF run] by blast
next
  fix v assume "userSpecifiedConfigOf config ''frameworkId'' = Some v \<and> truthy v"
  then show "getProp cfg ''framework'' = v" using user_layer_plain(3)[OF run] by blast
next
  fix k assume "k \<in> set frameworkSettings" "userSpecifiedConfigOf config k = None"
  then show "fw k \<noteq> None" using framework_defines[OF fw] by fastforce
next
  fix k assume "k \<in> set frameworkSettings" "userSpecifiedConfigOf config k = None"
  then show "getProp cfg k = getProp fw k" using framework_layer[OF run fws fw] by blast
next
  fix k assume "k \<in> set [''graphQLConfigJsonFilename'', ''customGeneratorFile'']"
  then show "fw k = None" using framework_leaves[OF fw] by auto
next
  fix k assume "k \<in> set [''graphQLConfigJsonFilename'', ''customGeneratorFile'']"
    "userSpecifiedConfigOf config k = None"
  then show "getProp cfg k = getProp (defaultNetlifyGraphConfig lib) k"
    using base_layer(1,2)[OF run fws] by auto
next
  show "fw ''runtimeTargetEnv'' = None" using framework_leaves[OF fw] by blast
next
  assume "userSpecifiedConfigOf config ''runtimeTargetEnv'' = None"
  then show "getProp cfg ''runtimeTargetEnv'' =
          js_or (getProp (defaultNetlifyGraphConfig lib) ''runtimeTargetEnv'') (Str ''node'')"
    using base_layer(3)[OF run fws] by blast
qed


lemma framework_key_layer:
  assumes "getNetlifyGraphConfig lib env config = Inr cfg"
      and "listFrameworks env = Inr frameworks"
      and "userSpecifiedConfigOf config ''frameworkId'' = None"
  shows "getProp cfg ''framework'' =
           js_or (js_or (getProp (defaultNetlifyGraphConfig lib) ''frameworkId'')
                    (detectedFrameworkIdOf frameworks))
             (Str ''default'')"
  using assms
  by (auto simp: getNetlifyGraphConfig_def Let_def bindE_Inr_iff getProp_def js_or_def
      map_add_def dest!: framework_leaves)

lemma language_unset:
  assumes "getNetlifyGraphConfig lib env config = Inr cfg"
      and "\<not> truthy (getProp (userSpecifiedConfigOf config) ''language'')"
  shows "getProp cfg ''language'' =
           (if tsconfigExists env then Str ''typescript'' else Str ''javascript'')"
  using assms
  by (auto simp: getNetlifyGraphConfig_def Let_def bindE_Inr_iff getProp_def js_or_def)

lemma user_falsy_kept:
  assumes "getNetlifyGraphConfig lib env config = Inr cfg"
      and "k \<in> set (''functionsPath'' # remove1 ''netlifyGraphPath'' splitSettings)"
      and "userSpecifiedConfigOf config k = Some v" and "\<not> truthy v"
  shows "getProp cfg k = v"
  using assms
  by (auto simp: getNetlifyGraphConfig_def Let_def bindE_Inr_iff getProp_def js_or_def
      splitSettings_def splitIfSet_def map_add_def)

lemma user_falsy_fallback:
  assumes "getNetlifyGraphConfig lib env config = Inr cfg"
      and "listFrameworks env = Inr frameworks"
      and "userSpecifiedConfigOf config k = Some v" and "\<not> truthy v"
  shows "k = ''netlifyGraphPath'' \<longrightarrow> getProp cfg k = getProp cfg ''functionsPath''"
    and "k = ''runtimeTargetEnv'' \<longrightarrow> getProp cfg k = Str ''node''"
    and "k = ''frameworkId'' \<longrightarrow>
           getProp cfg ''framework'' = js_or (detectedFrameworkIdOf frameworks) (Str ''default'')"
  using assms
  by (auto simp: getNetlifyGraphConfig_def Let_def bindE_Inr_iff getProp_def js_or_def
      splitIfSet_def map_add_def)

text \<open>
  \<^bold>\<open>C1.\<close>  In the configuration \<^verbatim>\<open>getNetlifyGraphConfig\<close> returns, a setting the user gives
  as a non-empty string is the user's: split on the path separator for the path-like
  settings, prefixed by the site root for \<^verbatim>\<open>functionsPath\<close>, taken as it is for the language,
  the runtime target and the framework id (which lands in the key \<^verbatim>\<open>framework\<close>), whatever
  the framework and the package say.  A setting the user leaves out and the framework
  factory defines is the framework's, whatever the package's default says.  A setting
  neither of them has is the package's default, with \<^verbatim>\<open>node\<close> below it for the runtime target
  and the detected framework id, then \<^verbatim>\<open>default\<close>, below it for the framework; the language
  has no default layer, it is detected.  A value the user gives that counts as false (the
  empty string) is not split: it stays the setting's value and hides both defaults, except
  that the Netlify Graph path becomes the resolved functions path, the language is
  detected, the runtime target is \<^verbatim>\<open>node\<close> and the framework is the detected id or
  \<^verbatim>\<open>default\<close>.
\<close>

theorem user_overrides_take_precedence:
  assumes run: "getNetlifyGraphConfig lib env config = Inr cfg"
      and fws: "listFrameworks env = Inr frameworks"
      and fw: "defaultFrameworkConfigOf lib env config frameworks = Inr fw"
  shows
   "((\<forall>k\<in>set splitSettings. \<forall>s. userSpecifiedConfigOf config k = Some (Str s) \<and> s \<noteq> [] \<longrightarrow>
        getProp cfg k = Arr (map Str (split_sep (path_sep env) s))) \<and>
    (\<forall>s. userSpecifiedConfigOf config ''functionsPath'' = Some (Str s) \<and> s \<noteq> [] \<longrightarrow>
        getProp cfg ''functionsPath'' =
          Arr (siteRootOf env @ map Str (split_sep (path_sep env) s))) \<and>
    (\<forall>v. userSpecifiedConfigOf config ''language'' = Some v \<and> truthy v \<longrightarrow>
        getProp cfg ''language'' = v) \<and>
    (\<forall>v. userSpecifiedConfigOf config ''runtimeTargetEnv'' = Some v \<and> truthy v \<longrightarrow>
        getProp cfg ''runtimeTargetEnv'' = v) \<and>
    (\<forall>v. userSpecifiedConfigOf config ''frameworkId'' = Some v \<and> truthy v \<longrightarrow>
        getProp cfg ''framework'' = v) \<and>
    (\<forall>k\<in>set frameworkSettings. userSpecifiedConfigOf config k = None \<longrightarrow>
        fw k \<noteq> None \<and> getProp cfg k = getProp fw k) \<and>
    (\<forall>k\<in>set [''graphQLConfigJsonFilename'', ''customGeneratorFile''].
        userSpecifiedConfigOf config k = None \<longrightarrow>
        fw k = None \<and> getProp cfg k = getProp (defaultNetlifyGraphConfig lib) k) \<and>
    (userSpecifiedConfigOf config ''runtimeTargetEnv'' = None \<longrightarrow>
        fw ''runtimeTargetEnv'' = None \<and>
        getProp cfg ''runtimeTargetEnv'' =
          js_or (getProp (defaultNetlifyGraphConfig lib) ''runtimeTargetEnv'') (Str ''node''))) \<and>
    (userSpecifiedConfigOf config ''frameworkId'' = None \<longrightarrow>
        fw ''frameworkId'' = None \<and>
        getProp cfg ''framework'' =
          js_or (js_or (getProp (defaultNetlifyGraphConfig lib) ''frameworkId'')
                   (detectedFrameworkIdOf frameworks))
            (Str ''default'')) \<and>
    (userSpecifiedConfigOf config ''language'' = None \<longrightarrow>
        getProp cfg ''language'' =
          (if tsconfigExists env then Str ''typescript'' else Str ''javascript'')) \<and>
    (\<forall>k\<in>set (''functionsPath'' # remove1 ''netlifyGraphPath'' splitSettings).
        \<forall>v. userSpecifiedConfigOf config k = Some v \<and> \<not> truthy v \<longrightarrow> getProp cfg k = v) \<and>
    (\<forall>v. userSpecifiedConfigOf config ''netlifyGraphPath'' = Some v \<and> \<not> truthy v \<longrightarrow>
        getProp cfg ''netlifyGraphPath'' = getProp cfg ''functionsPath'') \<and>
    (\<forall>v. userSpecifiedConfigOf config ''language'' = Some v \<and> \<not> truthy v \<longrightarrow>
        getProp cfg ''language'' =
          (if tsconfigExists env then Str ''typescript'' else Str ''javascript'')) \<and>
    (\<forall>v. userSpecifiedConfigOf config ''runtimeTargetEnv'' = Some v \<and> \<not> truthy v \<longrightarrow>
        getProp cfg ''runtimeTargetEnv'' = Str ''node'') \<and>
    (\<forall>v. userSpecifiedConfigOf config ''frameworkId'' = Some v \<and> \<not> truthy v \<longrightarrow>
        getProp cfg ''framework'' = js_or (detectedFrameworkIdOf frameworks) (Str ''default''))"
  (is "?layers \<and> ?rest")
proof -
  have layers: ?layers
    by (rule precedence_layers[OF run fws fw])
  have rest: ?rest
  proof (intro conjI ballI allI impI)
  show "fw ''frameworkId'' = None"
    using framework_leaves[OF fw] by blast
next
  assume "userSpecifiedConfigOf config ''frameworkId'' = None"
  then show "getProp cfg ''framework'' =
          js_or (js_or (getProp (defaultNetlifyGraphConfig lib) ''frameworkId'')
                   (detectedFrameworkIdOf frameworks))
            (Str ''default'')"
    by (rule framework_key_layer[OF run fws])
next
  assume "userSpecifiedConfigOf config ''language'' = None"
  then have "\<not> truthy (getProp (userSpecifiedConfigOf config) ''language'')"
    by (simp add: getProp_def)
  then show "getProp cfg ''language'' =
          (if tsconfigExists env then Str ''typescript'' else Str ''javascript'')"
    by (rule language_unset[OF run])
next
  fix k v
  assume "k \<in> set (''functionsPath'' # remove1 ''netlifyGraphPath'' splitSettings)"
    "userSpecifiedConfigOf config k = Some v \<and> \<not> truthy v"
  then show "getProp cfg k = v"
    using user_falsy_kept[OF run] by blast
next
  fix v assume "userSpecifiedConfigOf config ''netlifyGraphPath'' = Some v \<and> \<not> truthy v"
  then show "getProp cfg ''netlifyGraphPath'' = getProp cfg ''functionsPath''"
    using user_falsy_fallback(1)[OF run fws] by blast
next
  fix v assume "userSpecifiedConfigOf config ''language'' = Some v \<and> \<not> truthy v"
  then have "\<not> truthy (getProp (userSpecifiedConfigOf config) ''language'')"
    by (simp add: getProp_def)
  then show "getProp cfg ''language'' =
          (if tsconfigExists env then Str ''typescript'' else Str ''javascript'')"
    by (rule language_unset[OF run])
next
  fix v assume "userSpecifiedConfigOf config ''runtimeTargetEnv'' = Some v \<and> \<not> truthy v"
  then show "getProp cfg ''runtimeTargetEnv'' = Str ''node''"
    using user_falsy_fallback(2)[OF run fws] by blast
next
  fix v assume "userSpecifiedConfigOf config ''frameworkId'' = Some v \<and> \<not> truthy v"
  then show "getProp cfg ''framework'' = js_or (detectedFrameworkIdOf frameworks) (Str ''default'')"
    using user_falsy_fallback(3)[OF run fws] by blast
qed
  from layers rest show ?thesis
    by (rule conjI)
qed

theorem user_overrides_take_precedence_witness:
  "\<exists>cfg fw. getNetlifyGraphConfig exampleLib exampleEnv exampleConfig = Inr cfg \<and>
     defaultFrameworkConfigOf exampleLib exampleEnv exampleConfig [''next''] = Inr fw \<and>
     getProp cfg ''webhookBasePath'' = Arr [Str ''hooks'', Str ''graph''] \<and>
     getProp cfg ''functionsPath'' =
       Arr [Str ''/'', Str ''opt'', Str ''build'', Str ''repo'', Str ''fns''] \<and>
     getProp cfg ''language'' = Str ''javascript'' \<and>
     getProp cfg ''netlifyGraphPath'' =
       Arr [Str ''/'', Str ''opt'', Str ''build'', Str ''repo'', Str ''lib'', Str ''netlifyGraph''] \<and>
     getProp cfg ''moduleType'' = Str ''commonjs'' \<and>
     getProp cfg ''customGeneratorFile'' = Undefined \<and>
     getProp cfg ''runtimeTargetEnv'' = Str ''node'' \<and>
     getProp cfg ''framework'' = Str ''next''"
proof -
  obtain cfg where run: "getNetlifyGraphConfig exampleLib exampleEnv exampleConfig = Inr cfg"
    using example_returns by blast
  have fws: "listFrameworks exampleEnv = Inr [''next'']"
    by (simp add: exampleEnv_def)
  obtain fw where fw: "defaultFrameworkConfigOf exampleLib exampleEnv exampleConfig [''next''] = Inr fw"
    and fwp: "getProp fw ''netlifyGraphPath'' =
       Arr [Str ''/'', Str ''opt'', Str ''build'', Str ''repo'', Str ''lib'', Str ''netlifyGraph'']"
    and fwm: "getProp fw ''moduleType'' = Str ''commonjs''"
    using example_framework by blast
  note W = user_overrides_take_precedence[OF run fws fw]
  note T = W[THEN conjunct1]
  note N = W[THEN conjunct2]
  have "''webhookBasePath'' \<in> set splitSettings"
    by (simp add: splitSettings_def)
  with T example_user(1)
  have 1: "getProp cfg ''webhookBasePath'' = Arr [Str ''hooks'', Str ''graph'']"
    by (auto simp: exampleEnv_def)
  have 2: "getProp cfg ''functionsPath'' =
       Arr [Str ''/'', Str ''opt'', Str ''build'', Str ''repo'', Str ''fns'']"
    using T[THEN conjunct2, THEN conjunct1] example_user(2)
    by (simp add: exampleEnv_def siteRootOf_def filterRelativePathItems_def)
  have 3: "getProp cfg ''language'' = Str ''javascript''"
    using T[THEN conjunct2, THEN conjunct2, THEN conjunct1] example_user(3) by simp
  have inF: "''netlifyGraphPath'' \<in> set frameworkSettings" "''moduleType'' \<in> set frameworkSettings"
    by (simp_all add: frameworkSettings_def)
  have none: "userSpecifiedConfigOf exampleConfig ''netlifyGraphPath'' = None"
    "userSpecifiedConfigOf exampleConfig ''moduleType'' = None"
    "userSpecifiedConfigOf exampleConfig ''customGeneratorFile'' = None"
    "userSpecifiedConfigOf exampleConfig ''runtimeTargetEnv'' = None"
    by (simp_all add: example_user(4))
  have F: "\<forall>k\<in>set frameworkSettings. userSpecifiedConfigOf exampleConfig k = None \<longrightarrow>
        fw k \<noteq> None \<and> getProp cfg k = getProp fw k"
    using T by blast
  have 4: "getProp cfg ''netlifyGraphPath'' =
       Arr [Str ''/'', Str ''opt'', Str ''build'', Str ''repo'', Str ''lib'', Str ''netlifyGraph'']"
    using F inF(1) none(1) fwp by auto
  have 5: "getProp cfg ''moduleType'' = Str ''commonjs''"
    using F inF(2) none(2) fwm by auto
  have B: "\<forall>k\<in>set [''graphQLConfigJsonFilename'', ''customGeneratorFile''].
        userSpecifiedConfigOf exampleConfig k = None \<longrightarrow>
        fw k = None \<and> getProp cfg k = getProp (defaultNetlifyGraphConfig exampleLib) k"
    using T by blast
  have 6: "getProp cfg ''customGeneratorFile'' = Undefined"
    using B none(3) by (simp add: exampleLib_def getProp_def)
  have R: "userSpecifiedConfigOf exampleConfig ''runtimeTargetEnv'' = None \<longrightarrow>
        fw ''runtimeTargetEnv'' = None \<and>
        getProp cfg ''runtimeTargetEnv'' =
          js_or (getProp (defaultNetlifyGraphConfig exampleLib) ''runtimeTargetEnv'') (Str ''node'')"
    using T by blast
  have 7: "getProp cfg ''runtimeTargetEnv'' = Str ''node''"
    using R none(4) by (simp add: exampleLib_def getProp_def js_or_def)
  have "userSpecifiedConfigOf exampleConfig ''frameworkId'' = None"
    by (simp add: example_user(4))
  with N[THEN conjunct1]
  have 8: "getProp cfg ''framework'' = Str ''next''"
    by (simp add: exampleLib_def getProp_def js_or_def detectedFrameworkIdOf_def)
  show ?thesis using run fw 1 2 3 4 5 6 7 8 by blast
qed

text \<open>
  A value the user gives does not always win: given as the empty string, the language, the
  runtime target, the framework id and the Netlify Graph path come out as \<^verbatim>\<open>typescript\<close>,
  \<^verbatim>\<open>node\<close>, \<^verbatim>\<open>next\<close> and the functions path; the last is neither the user's value nor the
  framework's default.
\<close>

theorem empty_user_value_counterexample:
  "userSpecifiedConfigOf emptyStringConfig ''language'' = Some (Str []) \<and>
   userSpecifiedConfigOf emptyStringConfig ''runtimeTargetEnv'' = Some (Str []) \<and>
   userSpecifiedConfigOf emptyStringConfig ''frameworkId'' = Some (Str []) \<and>
   userSpecifiedConfigOf emptyStringConfig ''netlifyGraphPath'' = Some (Str []) \<and>
   (\<exists>cfg fw.
      getNetlifyGraphConfig exampleLib exampleEnv emptyStringConfig = Inr cfg \<and>
      defaultFrameworkConfigOf exampleLib exampleEnv emptyStringConfig [''next''] = Inr fw \<and>
      getProp cfg ''language'' = Str ''typescript'' \<and>
      getProp cfg ''runtimeTargetEnv'' = Str ''node'' \<and>
      getProp cfg ''framework'' = Str ''next'' \<and>
      getProp cfg ''netlifyGraphPath'' =
        Arr [Str ''/'', Str ''opt'', Str ''build'', Str ''repo'', Str ''pages'', Str ''api''] \<and>
      getProp fw ''netlifyGraphPath'' =
        Arr [Str ''/'', Str ''opt'', Str ''build'', Str ''repo'', Str ''lib'', Str ''netlifyGraph''])"
proof -
  have u: "userSpecifiedConfigOf emptyStringConfig ''language'' = Some (Str [])"
    "userSpecifiedConfigOf emptyStringConfig ''runtimeTargetEnv'' = Some (Str [])"
    "userSpecifiedConfigOf emptyStringConfig ''frameworkId'' = Some (Str [])"
    "userSpecifiedConfigOf emptyStringConfig ''netlifyGraphPath'' = Some (Str [])"
    by (simp_all add: userSpecifiedConfigOf_def emptyStringConfig_def)
  have c: "case getNetlifyGraphConfig exampleLib exampleEnv emptyStringConfig of
      Inl e \<Rightarrow> False
    | Inr cfg \<Rightarrow>
        getProp cfg ''language'' = Str ''typescript'' \<and>
        getProp cfg ''runtimeTargetEnv'' = Str ''node'' \<and>
        getProp cfg ''framework'' = Str ''next'' \<and>
        getProp cfg ''netlifyGraphPath'' =
          Arr [Str ''/'', Str ''opt'', Str ''build'', Str ''repo'', Str ''pages'', Str ''api'']"
    by code_simp
  have f: "case defaultFrameworkConfigOf exampleLib exampleEnv emptyStringConfig [''next''] of
      Inl e \<Rightarrow> False
    | Inr fw \<Rightarrow>
        getProp fw ''netlifyGraphPath'' =
          Arr [Str ''/'', Str ''opt'', Str ''build'', Str ''repo'', Str ''lib'', Str ''netlifyGraph'']"
    by code_simp
  from c f have "\<exists>cfg fw.
      getNetlifyGraphConfig exampleLib exampleEnv emptyStringConfig = Inr cfg \<and>
      defaultFrameworkConfigOf exampleLib exampleEnv emptyStringConfig [''next''] = Inr fw \<and>
      getProp cfg ''language'' = Str ''typescript'' \<and>
      getProp cfg ''runtimeTargetEnv'' = Str ''node'' \<and>
      getProp cfg ''framework'' = Str ''next'' \<and>
      getProp cfg ''netlifyGraphPath'' =
        Arr [Str ''/'', Str ''opt'', Str ''build'', Str ''repo'', Str ''pages'', Str ''api''] \<and>
      getProp fw ''netlifyGraphPath'' =
        Arr [Str ''/'', Str ''opt'', Str ''build'', Str ''repo'', Str ''lib'', Str ''netlifyGraph'']"
    by (cases "getNetlifyGraphConfig exampleLib exampleEnv emptyStringConfig";
        cases "defaultFrameworkConfigOf exampleLib exampleEnv emptyStringConfig [''next'']")
       simp_all
  with u show ?thesis by blast
qed



section \<open>Properties of the default-configuration factories\<close>

text \<open>
  \<^bold>\<open>C7.\<close>  Whatever framework is detected, the factory chosen for it returns path arrays
  without an empty segment: the functions path, the Netlify Graph path, the implementation
  and type-definition file names, and (when the package's default file names are not empty)
  the operations and schema file names.  The implementation file name is the Netlify Graph
  path followed by \<^verbatim>\<open>index.\<close> and the extension of the base configuration; the
  type-definition file name is the Netlify Graph path followed by the fixed name
  \<^verbatim>\<open>index.d.ts\<close>.
\<close>

theorem default_config_paths:
  assumes "defaultFrameworkLookup frameworkId lib ctx = Inr fw"
  shows "noEmptySegments (getProp fw ''functionsPath'') \<and>
     noEmptySegments (getProp fw ''netlifyGraphPath'') \<and>
     noEmptySegments (getProp fw ''netlifyGraphImplementationFilename'') \<and>
     noEmptySegments (getProp fw ''netlifyGraphTypeDefinitionsFilename'') \<and>
     (defaultSourceOperationsFilename lib \<noteq> Str [] \<longrightarrow>
        noEmptySegments (getProp fw ''graphQLOperationsSourceFilename'')) \<and>
     (defaultGraphQLSchemaFilename lib \<noteq> Str [] \<longrightarrow>
        noEmptySegments (getProp fw ''graphQLSchemaFilename'')) \<and>
     (\<exists>netlifyGraphPath.
        getProp fw ''netlifyGraphPath'' = Arr netlifyGraphPath \<and>
        getProp fw ''netlifyGraphImplementationFilename'' =
          Arr (netlifyGraphPath @
               [Str (''index.'' @ js_toString (getProp (baseConfig ctx) ''extension''))]) \<and>
        getProp fw ''netlifyGraphTypeDefinitionsFilename'' =
          Arr (netlifyGraphPath @ [Str ''index.d.ts'']) \<and>
        getProp fw ''graphQLOperationsSourceFilename'' =
          Arr (netlifyGraphPath @ [defaultSourceOperationsFilename lib]) \<and>
        getProp fw ''graphQLSchemaFilename'' =
          Arr (netlifyGraphPath @ [defaultGraphQLSchemaFilename lib]))"
  using assms
  by (auto simp: factory_defs Let_def bindE_Inr_iff getProp_def noEmptySegments_def
      split: if_splits)

theorem default_config_paths_witness:
  "\<exists>fw. defaultFrameworkLookup (Str ''next'') exampleLib exampleContext = Inr fw \<and>
     getProp fw ''netlifyGraphPath'' = Arr [Str ''/'', Str ''repo'', Str ''lib'', Str ''netlifyGraph''] \<and>
     noEmptySegments (getProp fw ''functionsPath'') \<and>
     noEmptySegments (getProp fw ''graphQLSchemaFilename'') \<and>
     getProp fw ''netlifyGraphImplementationFilename'' =
       Arr [Str ''/'', Str ''repo'', Str ''lib'', Str ''netlifyGraph'', Str ''index.js''] \<and>
     getProp fw ''netlifyGraphTypeDefinitionsFilename'' =
       Arr [Str ''/'', Str ''repo'', Str ''lib'', Str ''netlifyGraph'', Str ''index.d.ts'']"
proof -
  have "\<exists>fw. defaultFrameworkLookup (Str ''next'') exampleLib exampleContext = Inr fw \<and>
     getProp fw ''netlifyGraphPath'' = Arr [Str ''/'', Str ''repo'', Str ''lib'', Str ''netlifyGraph'']"
    by (simp add: framework_defs example_defs)
  then obtain fw where fw: "defaultFrameworkLookup (Str ''next'') exampleLib exampleContext = Inr fw"
    and p: "getProp fw ''netlifyGraphPath'' = Arr [Str ''/'', Str ''repo'', Str ''lib'', Str ''netlifyGraph'']"
    by blast
  have ext: "js_toString (getProp (baseConfig exampleContext) ''extension'') = ''js''"
    by (simp add: exampleContext_def getProp_def)
  have lib: "defaultGraphQLSchemaFilename exampleLib \<noteq> Str []"
    by (simp add: exampleLib_def)
  show ?thesis
    using default_config_paths[OF fw] fw p ext lib by auto
qed

text \<open>
  The type-definition file name does not carry the configured extension: with the
  extension \<^verbatim>\<open>js\<close> the generic factory names it \<^verbatim>\<open>index.d.ts\<close>, not \<^verbatim>\<open>index.js\<close>.
\<close>

theorem type_definitions_extension_counterexample:
  "getProp (baseConfig exampleContext) ''extension'' = Str ''js'' \<and>
   getProp (makeDefaultNetlifyGraphConfig exampleLib exampleContext) ''netlifyGraphPath'' =
     Arr [Str ''/'', Str ''netlify'', Str ''functions'', Str ''netlifyGraph''] \<and>
   getProp (makeDefaultNetlifyGraphConfig exampleLib exampleContext)
       ''netlifyGraphTypeDefinitionsFilename'' =
     Arr [Str ''/'', Str ''netlify'', Str ''functions'', Str ''netlifyGraph'', Str ''index.d.ts''] \<and>
   getProp (makeDefaultNetlifyGraphConfig exampleLib exampleContext)
       ''netlifyGraphTypeDefinitionsFilename'' \<noteq>
     Arr ([Str ''/'', Str ''netlify'', Str ''functions'', Str ''netlifyGraph''] @
          [Str (''index.'' @ js_toString (getProp (baseConfig exampleContext) ''extension''))])"
  by (simp add: framework_defs example_defs)

text \<open>
  \<^bold>\<open>C10.\<close>  The generic factory appends the package's default operations directory name
  to the Netlify Graph path as one element, whatever the name is.  The Next.js and Remix
  factories append the elements the name spreads to: for a string, one one-character
  segment per character; for an array, its elements.
\<close>

theorem operations_directory_segments:
  "(\<exists>netlifyGraphPath.
       getProp (makeDefaultNetlifyGraphConfig lib ctx) ''netlifyGraphPath'' = Arr netlifyGraphPath \<and>
       getProp (makeDefaultNetlifyGraphConfig lib ctx) ''graphQLOperationsSourceDirectory'' =
         Arr (netlifyGraphPath @ [defaultSourceOperationsDirectoryName lib])) \<and>
   (\<forall>fw. makeDefaultNextJsNetlifyGraphConfig lib ctx = Inr fw \<longrightarrow>
       (\<exists>netlifyGraphPath segments.
          spread (defaultSourceOperationsDirectoryName lib) = Inr segments \<and>
          getProp fw ''netlifyGraphPath'' = Arr netlifyGraphPath \<and>
          getProp fw ''graphQLOperationsSourceDirectory'' = Arr (netlifyGraphPath @ segments))) \<and>
   (\<forall>fw. makeDefaultRemixNetlifyGraphConfig lib ctx = Inr fw \<longrightarrow>
       (\<exists>netlifyGraphPath segments.
          spread (defaultSourceOperationsDirectoryName lib) = Inr segments \<and>
          getProp fw ''netlifyGraphPath'' = Arr netlifyGraphPath \<and>
          getProp fw ''graphQLOperationsSourceDirectory'' = Arr (netlifyGraphPath @ segments))) \<and>
   (\<forall>d. defaultSourceOperationsDirectoryName lib = Str d \<longrightarrow>
       (\<exists>fw netlifyGraphPath segments.
          makeDefaultNextJsNetlifyGraphConfig lib ctx = Inr fw \<and>
          getProp fw ''netlifyGraphPath'' = Arr netlifyGraphPath \<and>
          getProp fw ''graphQLOperationsSourceDirectory'' = Arr (netlifyGraphPath @ segments) \<and>
          segments = map (\<lambda>c. Str [c]) d \<and> length segments = length d) \<and>
       (\<forall>fw. makeDefaultRemixNetlifyGraphConfig lib ctx = Inr fw \<longrightarrow>
          (\<exists>netlifyGraphPath segments.
             getProp fw ''netlifyGraphPath'' = Arr netlifyGraphPath \<and>
             getProp fw ''graphQLOperationsSourceDirectory'' = Arr (netlifyGraphPath @ segments) \<and>
             segments = map (\<lambda>c. Str [c]) d \<and> length segments = length d))) \<and>
   (\<forall>xs. defaultSourceOperationsDirectoryName lib = Arr xs \<longrightarrow>
       (\<exists>fw netlifyGraphPath.
          makeDefaultNextJsNetlifyGraphConfig lib ctx = Inr fw \<and>
          getProp fw ''netlifyGraphPath'' = Arr netlifyGraphPath \<and>
          getProp fw ''graphQLOperationsSourceDirectory'' = Arr (netlifyGraphPath @ xs)) \<and>
       (\<forall>fw. makeDefaultRemixNetlifyGraphConfig lib ctx = Inr fw \<longrightarrow>
          (\<exists>netlifyGraphPath.
             getProp fw ''netlifyGraphPath'' = Arr netlifyGraphPath \<and>
             getProp fw ''graphQLOperationsSourceDirectory'' = Arr (netlifyGraphPath @ xs))))"
proof (intro conjI allI impI)
  show "\<exists>netlifyGraphPath.
       getProp (makeDefaultNetlifyGraphConfig lib ctx) ''netlifyGraphPath'' = Arr netlifyGraphPath \<and>
       getProp (makeDefaultNetlifyGraphConfig lib ctx) ''graphQLOperationsSourceDirectory'' =
         Arr (netlifyGraphPath @ [defaultSourceOperationsDirectoryName lib])"
    by (simp add: factory_defs Let_def getProp_def)
next
  fix fw assume "makeDefaultNextJsNetlifyGraphConfig lib ctx = Inr fw"
  then show "\<exists>netlifyGraphPath segments.
          spread (defaultSourceOperationsDirectoryName lib) = Inr segments \<and>
          getProp fw ''netlifyGraphPath'' = Arr netlifyGraphPath \<and>
          getProp fw ''graphQLOperationsSourceDirectory'' = Arr (netlifyGraphPath @ segments)"
    by (auto simp: factory_defs Let_def bindE_Inr_iff getProp_def)
next
  fix fw assume "makeDefaultRemixNetlifyGraphConfig lib ctx = Inr fw"
  then show "\<exists>netlifyGraphPath segments.
          spread (defaultSourceOperationsDirectoryName lib) = Inr segments \<and>
          getProp fw ''netlifyGraphPath'' = Arr netlifyGraphPath \<and>
          getProp fw ''graphQLOperationsSourceDirectory'' = Arr (netlifyGraphPath @ segments)"
    by (auto simp: factory_defs Let_def bindE_Inr_iff getProp_def)
next
  fix d assume "defaultSourceOperationsDirectoryName lib = Str d"
  then show "\<exists>fw netlifyGraphPath segments.
          makeDefaultNextJsNetlifyGraphConfig lib ctx = Inr fw \<and>
          getProp fw ''netlifyGraphPath'' = Arr netlifyGraphPath \<and>
          getProp fw ''graphQLOperationsSourceDirectory'' = Arr (netlifyGraphPath @ segments) \<and>
          segments = map (\<lambda>c. Str [c]) d \<and> length segments = length d"
    by (simp add: factory_defs Let_def bindE_def getProp_def spread_def)
next
  fix d fw
  assume "defaultSourceOperationsDirectoryName lib = Str d"
    "makeDefaultRemixNetlifyGraphConfig lib ctx = Inr fw"
  then show "\<exists>netlifyGraphPath segments.
             getProp fw ''netlifyGraphPath'' = Arr netlifyGraphPath \<and>
             getProp fw ''graphQLOperationsSourceDirectory'' = Arr (netlifyGraphPath @ segments) \<and>
             segments = map (\<lambda>c. Str [c]) d \<and> length segments = length d"
    by (auto simp: factory_defs Let_def bindE_Inr_iff getProp_def spread_def)
next
  fix xs assume "defaultSourceOperationsDirectoryName lib = Arr xs"
  then show "\<exists>fw netlifyGraphPath.
          makeDefaultNextJsNetlifyGraphConfig lib ctx = Inr fw \<and>
          getProp fw ''netlifyGraphPath'' = Arr netlifyGraphPath \<and>
          getProp fw ''graphQLOperationsSourceDirectory'' = Arr (netlifyGraphPath @ xs)"
    by (simp add: factory_defs Let_def bindE_def getProp_def spread_def)
next
  fix xs fw
  assume "defaultSourceOperationsDirectoryName lib = Arr xs"
    "makeDefaultRemixNetlifyGraphConfig lib ctx = Inr fw"
  then show "\<exists>netlifyGraphPath.
             getProp fw ''netlifyGraphPath'' = Arr netlifyGraphPath \<and>
             getProp fw ''graphQLOperationsSourceDirectory'' = Arr (netlifyGraphPath @ xs)"
    by (auto simp: factory_defs Let_def bindE_Inr_iff getProp_def spread_def)
qed

lemma example_factory_paths:
  "getProp (makeDefaultNetlifyGraphConfig lib exampleContext) ''netlifyGraphPath'' =
     Arr [Str ''/'', Str ''netlify'', Str ''functions'', Str ''netlifyGraph'']"
  "makeDefaultNextJsNetlifyGraphConfig lib exampleContext = Inr fw \<Longrightarrow>
     getProp fw ''netlifyGraphPath'' = Arr [Str ''/'', Str ''repo'', Str ''lib'', Str ''netlifyGraph'']"
  by (auto simp: factory_defs Let_def bindE_Inr_iff getProp_def exampleContext_def)

lemma example_remix_path:
  assumes "getProp (defaultNetlifyGraphConfig lib) ''netlifyGraphPath'' =
             Arr [Str ''netlify'', Str ''functions'', Str ''netlifyGraph'']"
      and "makeDefaultRemixNetlifyGraphConfig lib exampleContext = Inr fw"
  shows "getProp fw ''netlifyGraphPath'' =
     Arr [Str ''/'', Str ''repo'', Str ''netlify'', Str ''functions'', Str ''netlifyGraph'']"
  using assms(2)
  by (auto simp: factory_defs Let_def bindE_Inr_iff assms(1) spread_def exampleContext_def
      getProp_def[of fw])

theorem operations_directory_segments_witness:
  "getProp (makeDefaultNetlifyGraphConfig stringNameLib exampleContext)
       ''graphQLOperationsSourceDirectory'' =
     Arr [Str ''/'', Str ''netlify'', Str ''functions'', Str ''netlifyGraph'', Str ''operations''] \<and>
   (\<exists>fw. makeDefaultNextJsNetlifyGraphConfig stringNameLib exampleContext = Inr fw \<and>
      getProp fw ''graphQLOperationsSourceDirectory'' =
        Arr [Str ''/'', Str ''repo'', Str ''lib'', Str ''netlifyGraph'',
             Str ''o'', Str ''p'', Str ''e'', Str ''r'', Str ''a'', Str ''t'', Str ''i'', Str ''o'',
             Str ''n'', Str ''s'']) \<and>
   (\<exists>fw. makeDefaultRemixNetlifyGraphConfig stringNameLib exampleContext = Inr fw \<and>
      getProp fw ''graphQLOperationsSourceDirectory'' =
        Arr [Str ''/'', Str ''repo'', Str ''netlify'', Str ''functions'', Str ''netlifyGraph'',
             Str ''o'', Str ''p'', Str ''e'', Str ''r'', Str ''a'', Str ''t'', Str ''i'', Str ''o'',
             Str ''n'', Str ''s'']) \<and>
   getProp (makeDefaultNetlifyGraphConfig exampleLib exampleContext)
       ''graphQLOperationsSourceDirectory'' =
     Arr [Str ''/'', Str ''netlify'', Str ''functions'', Str ''netlifyGraph'',
          Arr [Str ''operations'']] \<and>
   (\<exists>fw. makeDefaultNextJsNetlifyGraphConfig exampleLib exampleContext = Inr fw \<and>
      getProp fw ''graphQLOperationsSourceDirectory'' =
        Arr [Str ''/'', Str ''repo'', Str ''lib'', Str ''netlifyGraph'', Str ''operations'']) \<and>
   (\<exists>fw. makeDefaultRemixNetlifyGraphConfig exampleLib exampleContext = Inr fw \<and>
      getProp fw ''graphQLOperationsSourceDirectory'' =
        Arr [Str ''/'', Str ''repo'', Str ''netlify'', Str ''functions'', Str ''netlifyGraph'',
             Str ''operations''])"
proof -
  note S = operations_directory_segments[of stringNameLib exampleContext]
  note A = operations_directory_segments[of exampleLib exampleContext]
  have ds: "defaultSourceOperationsDirectoryName stringNameLib = Str ''operations''"
    by (simp add: stringNameLib_def)
  have da: "defaultSourceOperationsDirectoryName exampleLib = Arr [Str ''operations'']"
    by (simp add: exampleLib_def)
  have bs: "getProp (defaultNetlifyGraphConfig stringNameLib) ''netlifyGraphPath'' =
             Arr [Str ''netlify'', Str ''functions'', Str ''netlifyGraph'']"
    by (simp add: stringNameLib_def exampleLib_def getProp_def)
  have ba: "getProp (defaultNetlifyGraphConfig exampleLib) ''netlifyGraphPath'' =
             Arr [Str ''netlify'', Str ''functions'', Str ''netlifyGraph'']"
    by (simp add: exampleLib_def getProp_def)
  have rs: "\<exists>fw. makeDefaultRemixNetlifyGraphConfig stringNameLib exampleContext = Inr fw"
    by (simp add: factory_defs Let_def bindE_def spread_def stringNameLib_def exampleLib_def
        getProp_def)
  have ra: "\<exists>fw. makeDefaultRemixNetlifyGraphConfig exampleLib exampleContext = Inr fw"
    by (simp add: factory_defs Let_def bindE_def spread_def exampleLib_def getProp_def)
  have 1: "getProp (makeDefaultNetlifyGraphConfig stringNameLib exampleContext)
       ''graphQLOperationsSourceDirectory'' =
     Arr [Str ''/'', Str ''netlify'', Str ''functions'', Str ''netlifyGraph'', Str ''operations'']"
    using S[THEN conjunct1] example_factory_paths(1)[of stringNameLib] ds by auto
  have 2: "\<exists>fw. makeDefaultNextJsNetlifyGraphConfig stringNameLib exampleContext = Inr fw \<and>
      getProp fw ''graphQLOperationsSourceDirectory'' =
        Arr [Str ''/'', Str ''repo'', Str ''lib'', Str ''netlifyGraph'',
             Str ''o'', Str ''p'', Str ''e'', Str ''r'', Str ''a'', Str ''t'', Str ''i'', Str ''o'',
             Str ''n'', Str ''s'']"
    using S[THEN conjunct2, THEN conjunct2, THEN conjunct2, THEN conjunct1] ds
      example_factory_paths(2)[of stringNameLib]
    by fastforce
  have 3: "\<exists>fw. makeDefaultRemixNetlifyGraphConfig stringNameLib exampleContext = Inr fw \<and>
      getProp fw ''graphQLOperationsSourceDirectory'' =
        Arr [Str ''/'', Str ''repo'', Str ''netlify'', Str ''functions'', Str ''netlifyGraph'',
             Str ''o'', Str ''p'', Str ''e'', Str ''r'', Str ''a'', Str ''t'', Str ''i'', Str ''o'',
             Str ''n'', Str ''s'']"
    using S[THEN conjunct2, THEN conjunct2, THEN conjunct2, THEN conjunct1] ds rs
      example_remix_path[OF bs]
    by fastforce
  have 4: "getProp (makeDefaultNetlifyGraphConfig exampleLib exampleContext)
       ''graphQLOperationsSourceDirectory'' =
     Arr [Str ''/'', Str ''netlify'', Str ''functions'', Str ''netlifyGraph'',
          Arr [Str ''operations'']]"
    using A[THEN conjunct1] example_factory_paths(1)[of exampleLib] da by auto
  have 5: "\<exists>fw. makeDefaultNextJsNetlifyGraphConfig exampleLib exampleContext = Inr fw \<and>
      getProp fw ''graphQLOperationsSourceDirectory'' =
        Arr [Str ''/'', Str ''repo'', Str ''lib'', Str ''netlifyGraph'', Str ''operations'']"
    using A[THEN conjunct2, THEN conjunct2, THEN conjunct2, THEN conjunct2] da
      example_factory_paths(2)[of exampleLib]
    by fastforce
  have 6: "\<exists>fw. makeDefaultRemixNetlifyGraphConfig exampleLib exampleContext = Inr fw \<and>
      getProp fw ''graphQLOperationsSourceDirectory'' =
        Arr [Str ''/'', Str ''repo'', Str ''netlify'', Str ''functions'', Str ''netlifyGraph'',
             Str ''operations'']"
    using A[THEN conjunct2, THEN conjunct2, THEN conjunct2, THEN conjunct2] da ra
      example_remix_path[OF ba]
    by fastforce
  show ?thesis using 1 2 3 4 5 6 by blast
qed


section \<open>Properties of the build handler\<close>

lemma snd_bindIO:
  "snd (bindIO m f) = snd m @ (case fst m of Next x \<Rightarrow> snd (f x) | _ \<Rightarrow> [])"
  by (cases m; cases "fst m") (auto simp: bindIO_def split: prod.splits)

lemma snd_bindIO_Next: "m = (Next x, tr) \<Longrightarrow> snd (bindIO m f) = tr @ snd (f x)"
  by (simp add: snd_bindIO)

lemma filter_bindIO_empty:
  assumes "filter P (snd m) = []" and "\<And>x. filter P (snd (f x)) = []"
  shows "filter P (snd (bindIO m f)) = []"
  using assms by (simp add: snd_bindIO split: outcome.splits)

lemma snd_liftE [simp]: "snd (liftE m) = []"
  by (simp add: liftE_def split: sum.splits)

lemma snd_ret [simp]: "snd (ret x) = []"
  by (simp add: ret_def)

lemma snd_returnEarly [simp]: "snd returnEarly = []"
  by (simp add: returnEarly_def)

lemma snd_emit [simp]: "snd (emit ev) = [ev]"
  by (simp add: emit_def)

lemma snd_failBuild [simp]: "snd (failBuild env m d) = [FailBuild m d]"
  by (simp add: failBuild_def snd_bindIO emit_def ret_def)

lemma snd_onPreBuild:
  assumes "truthy (NETLIFY_GRAPH_PERSIST_QUERY_TOKEN env)"
  shows "\<exists>rest. snd (onPreBuild env) =
           snd (tryBlock env (NETLIFY_GRAPH_PERSIST_QUERY_TOKEN env)) @ rest"
  using assms
  by (cases "tryBlock env (NETLIFY_GRAPH_PERSIST_QUERY_TOKEN env)";
      cases "fst (tryBlock env (NETLIFY_GRAPH_PERSIST_QUERY_TOKEN env))")
     (auto simp: onPreBuild_def Let_def snd_bindIO)

text \<open>
  \<^bold>\<open>C2.\<close>  When the persistence token is absent (or empty), the handler logs the warning,
  shows the build-status message and returns: these two events are the whole trace, so no
  collaborator is called, remote or not, and the build is not failed.
\<close>

theorem missing_token_skips:
  assumes "\<not> truthy (NETLIFY_GRAPH_PERSIST_QUERY_TOKEN env)"
  shows "onPreBuild env =
           (Returned,
            [ConsoleWarn missingTokenWarning, StatusShow missingTokenTitle missingTokenSummary]) \<and>
         filter isRemoteCall (snd (onPreBuild env)) = [] \<and>
         filter isFailBuild (snd (onPreBuild env)) = []"
  using assms
  by (simp add: onPreBuild_def returnEarly_def isRemoteCall_def isFailBuild_def bindIO_def
      emit_def)

theorem missing_token_skips_witness:
  "\<not> truthy (NETLIFY_GRAPH_PERSIST_QUERY_TOKEN missingTokenBuild) \<and>
   onPreBuild missingTokenBuild =
     (Returned,
      [ConsoleWarn missingTokenWarning, StatusShow missingTokenTitle missingTokenSummary]) \<and>
   fst (onPreBuild exampleBuild) = Next ()"
proof -
  have t: "\<not> truthy (NETLIFY_GRAPH_PERSIST_QUERY_TOKEN missingTokenBuild)"
    by (simp add: missingTokenBuild_def)
  have e: "fst (onPreBuild exampleBuild) = Next ()"
    by code_simp
  show ?thesis using missing_token_skips[OF t] t e by simp
qed

text \<open>
  \<^bold>\<open>C6.\<close>  With a token and a resolved configuration, when reading \<^verbatim>\<open>netlifyGraph.json\<close> or
  parsing it throws \<open>e\<close>, the first thing the handler does next is to call the build-failure API
  with the hint to run the init command and commit the JSON file, and with \<open>e\<close> as the
  structured error.
\<close>

theorem unreadable_state_file_fails_build:
  assumes token: "truthy (NETLIFY_GRAPH_PERSIST_QUERY_TOKEN env)"
      and cfg: "resolveNetlifyGraphConfig env = (Next netlifyGraphConfig, tr)"
      and json: "bindE (fs_readFileSync env ''netlifyGraph.json'') (JSON_parse env) = Inl e"
  shows "\<exists>rest. snd (onPreBuild env) =
           tr @ FailBuild netlifyGraphJsonHint (ErrorDetails e) # rest"
proof -
  have "snd (readNetlifyGraphJson env) = [FailBuild netlifyGraphJsonHint (ErrorDetails e)]"
    using json by (simp add: readNetlifyGraphJson_def snd_bindIO split: outcome.splits)
  then have "\<exists>rest. snd (tryBlock env (NETLIFY_GRAPH_PERSIST_QUERY_TOKEN env)) =
      tr @ FailBuild netlifyGraphJsonHint (ErrorDetails e) # rest"
    unfolding tryBlock_def snd_bindIO_Next[OF cfg]
    by (simp add: snd_bindIO)
  then show ?thesis
    using snd_onPreBuild[OF token] by auto
qed


lemma example_resolve:
  assumes "resolveConfig env = Inr plainConfig" and "netlifyGraphLib env = exampleLib"
      and "configEnv env = exampleEnv"
  shows "resolveNetlifyGraphConfig env = (Next exampleResolved, [ResolveConfig (CONFIG_PATH env)])"
proof -
  obtain cfg where run: "getNetlifyGraphConfig exampleLib exampleEnv plainConfig = Inr cfg"
    using plain_returns by blast
  then have "exampleResolved = cfg"
    by (simp add: exampleResolved_def)
  with run show ?thesis
    using assms by (simp add: resolveNetlifyGraphConfig_def bindIO_def emit_def liftE_def)
qed

theorem unreadable_state_file_fails_build_witness:
  "\<exists>rest. snd (onPreBuild missingJsonBuild) =
     [ResolveConfig (Str ''/opt/build/repo/netlify.toml'')] @
     FailBuild netlifyGraphJsonHint (ErrorDetails (Rejected ''ENOENT'')) # rest"
proof -
  have token: "truthy (NETLIFY_GRAPH_PERSIST_QUERY_TOKEN missingJsonBuild)"
    by (simp add: missingJsonBuild_def exampleBuild_def)
  have "resolveNetlifyGraphConfig missingJsonBuild =
      (Next exampleResolved, [ResolveConfig (Str ''/opt/build/repo/netlify.toml'')])"
    using example_resolve[of missingJsonBuild]
    by (simp add: missingJsonBuild_def exampleBuild_def)
  moreover have "bindE (fs_readFileSync missingJsonBuild ''netlifyGraph.json'')
       (JSON_parse missingJsonBuild) = Inl (Rejected ''ENOENT'')"
    by (simp add: missingJsonBuild_def bindE_def)
  ultimately show ?thesis
    using unreadable_state_file_fails_build[OF token] by blast
qed

text \<open>The events of each step of the handler.\<close>

lemma resolve_trace:
  "snd (resolveNetlifyGraphConfig env) = [ResolveConfig (CONFIG_PATH env)]"
  by (simp add: resolveNetlifyGraphConfig_def snd_bindIO split: outcome.splits)

lemma json_then_schema:
  assumes "readNetlifyGraphJson env = (Next j, t1)"
      and "createGraphQLSchema env tok j = (Next i, t2)"
  shows "t1 = []"
proof -
  have "j \<noteq> None"
    using assms(2)
    by (cases j) (simp_all add: createGraphQLSchema_def bindIO_def emit_def liftE_def)
  with assms(1) show ?thesis
    by (auto simp: readNetlifyGraphJson_def ret_def bindIO_def failBuild_def emit_def
        split: sum.splits if_splits)
qed

lemma quiet_ensure:
  assumes "\<And>p. \<not> P (MkdirSync p)"
  shows "filter P (snd (ensureNetlifyGraphPath env cfg)) = []"
  unfolding ensureNetlifyGraphPath_def
  by (intro filter_bindIO_empty) (simp_all add: assms)

lemma quiet_create:
  assumes "\<And>xs. \<not> P (ConsoleLog xs)" and "\<And>a b c. \<not> P (CreateGraphQLSchemaMutation a b c)"
  shows "filter P (snd (createGraphQLSchema env tok j)) = []"
  unfolding createGraphQLSchema_def
  by (intro filter_bindIO_empty) (simp_all add: assms)

lemma quiet_readSchema:
  assumes "\<And>p. \<not> P (MkdirSync p)"
  shows "filter P (snd (readGraphQLSchemaFile env cfg)) = []"
  unfolding readGraphQLSchemaFile_def
  by (intro filter_bindIO_empty quiet_ensure) (simp_all add: assms)

lemma quiet_buildSchema:
  assumes "\<And>p. \<not> P (MkdirSync p)" and "\<And>m. \<not> P (ConsoleError m)"
  shows "filter P (snd (buildGraphQLSchema env cfg)) = []"
  unfolding buildGraphQLSchema_def
  by (intro filter_bindIO_empty quiet_readSchema)
     (simp_all add: assms snd_bindIO split: sum.splits)

lemma quiet_legacy:
  assumes "\<And>p. \<not> P (MkdirSync p)"
  shows "filter P (snd (readLegacyGraphQLOperationsSourceFile env cfg)) = []"
  unfolding readLegacyGraphQLOperationsSourceFile_def
  by (intro filter_bindIO_empty quiet_ensure)
     (simp_all add: assms snd_bindIO split: outcome.splits)

lemma quiet_operations:
  assumes "\<And>p. \<not> P (MkdirSync p)" and "\<And>xs. \<not> P (ConsoleLog xs)"
  shows "filter P (snd (readGraphQLOperationsSourceFiles env cfg)) = []"
  unfolding readGraphQLOperationsSourceFiles_def Let_def
  by (intro filter_bindIO_empty quiet_ensure) (simp_all add: assms)

lemma quiet_events:
  "\<not> isFailBuild (MkdirSync p)" "\<not> isFailBuild (ConsoleLog xs)" "\<not> isFailBuild (ConsoleError m)"
  "\<not> isFailBuild (ConsoleWarn m)" "\<not> isFailBuild (ResolveConfig c)"
  "\<not> isFailBuild (CreateGraphQLSchemaMutation a b d)"
  "\<not> isGeneratorCall (MkdirSync p)" "\<not> isGeneratorCall (ConsoleLog xs)"
  "\<not> isGeneratorCall (ConsoleError m)" "\<not> isGeneratorCall (ConsoleWarn m)"
  "\<not> isGeneratorCall (ResolveConfig c)" "\<not> isGeneratorCall (CreateGraphQLSchemaMutation a b d)"
  "\<not> isGeneratorCall (FailBuild m dt)"
  by (simp_all add: isFailBuild_def isGeneratorCall_def)

lemma quiet_of:
  "f = (r, tr) \<Longrightarrow> filter P (snd f) = [] \<Longrightarrow> filter P tr = []"
  by simp

text \<open>
  \<^bold>\<open>C5.\<close>  In a run that gets as far as building the schema, when \<^verbatim>\<open>GraphQL.buildSchema\<close> throws,
  the handler logs the parse error and \<^verbatim>\<open>Failed to parse Netlify GraphQL schema\<close> on the error
  console and returns; the build-failure API is not called anywhere in the run.
\<close>

theorem schema_failure_is_soft:
  assumes token: "truthy (NETLIFY_GRAPH_PERSIST_QUERY_TOKEN env)"
      and cfg: "resolveNetlifyGraphConfig env = (Next netlifyGraphConfig, t0)"
      and json: "readNetlifyGraphJson env = (Next netlifyGraphJson, t1)"
      and create: "createGraphQLSchema env (NETLIFY_GRAPH_PERSIST_QUERY_TOKEN env) netlifyGraphJson
                     = (Next newSchemaId, t2)"
      and read: "readGraphQLSchemaFile env netlifyGraphConfig = (Next schemaString, t3)"
      and build: "GraphQL_buildSchema env schemaString = Inl buildSchemaError"
  shows "onPreBuild env =
           (Returned,
            t0 @ t1 @ t2 @ t3 @
            [ConsoleError (''Error parsing schema: '' @ errorString env buildSchemaError),
             ConsoleError ''Failed to parse Netlify GraphQL schema'']) \<and>
         filter isFailBuild (snd (onPreBuild env)) = []"
proof -
  have b: "buildGraphQLSchema env netlifyGraphConfig =
      (Next None, t3 @ [ConsoleError (''Error parsing schema: '' @ errorString env buildSchemaError)])"
    using read build by (simp add: buildGraphQLSchema_def bindIO_def emit_def ret_def)
  have tb: "tryBlock env (NETLIFY_GRAPH_PERSIST_QUERY_TOKEN env) =
      (Returned, t0 @ t1 @ t2 @ t3 @
            [ConsoleError (''Error parsing schema: '' @ errorString env buildSchemaError),
             ConsoleError ''Failed to parse Netlify GraphQL schema''])"
    using cfg json create b
    by (simp add: tryBlock_def bindIO_def emit_def returnEarly_def)
  have run: "onPreBuild env =
           (Returned,
            t0 @ t1 @ t2 @ t3 @
            [ConsoleError (''Error parsing schema: '' @ errorString env buildSchemaError),
             ConsoleError ''Failed to parse Netlify GraphQL schema''])"
    using token tb by (simp add: onPreBuild_def)
  have q0: "filter isFailBuild t0 = []"
    using cfg resolve_trace[of env] by (simp add: quiet_events)
  have q1: "t1 = []"
    using json_then_schema[OF json create] .
  have q2: "filter isFailBuild t2 = []"
    using quiet_of[OF create quiet_create] by (simp add: quiet_events)
  have q3: "filter isFailBuild t3 = []"
    using quiet_of[OF read quiet_readSchema] by (simp add: quiet_events)
  show ?thesis
    using run q0 q1 q2 q3 by (simp add: quiet_events)
qed


lemma steps_badSchema:
  shows "truthy (NETLIFY_GRAPH_PERSIST_QUERY_TOKEN badSchemaBuild)"
    and "resolveNetlifyGraphConfig badSchemaBuild =
           (Next exampleResolved, [ResolveConfig (Str ''/opt/build/repo/netlify.toml'')])"
    and "readNetlifyGraphJson badSchemaBuild = (Next (Some (JsonValue (Arr [Str ''GITHUB'']))), [])"
    and "createGraphQLSchema badSchemaBuild (NETLIFY_GRAPH_PERSIST_QUERY_TOKEN badSchemaBuild)
           (Some (JsonValue (Arr [Str ''GITHUB'']))) =
         (Next (Str ''schema-1''),
          [ConsoleLog [Str ''Creating a new Netlify Graph schema''],
           CreateGraphQLSchemaMutation (Str ''site-1'') (Arr [Str ''GITHUB'']) (Str ''token''),
           ConsoleLog [Str ''Created a new Netlify Graph schema'', Str ''schema-1'']])"
    and "readGraphQLSchemaFile badSchemaBuild exampleResolved =
           (Next ''type Query'', [MkdirSync ''/opt/build/repo/lib/netlifyGraph''])"
proof -
  show "truthy (NETLIFY_GRAPH_PERSIST_QUERY_TOKEN badSchemaBuild)"
    by code_simp
  show "resolveNetlifyGraphConfig badSchemaBuild =
           (Next exampleResolved, [ResolveConfig (Str ''/opt/build/repo/netlify.toml'')])"
    using example_resolve[of badSchemaBuild]
    by (simp add: badSchemaBuild_def exampleBuild_def)
  show "readNetlifyGraphJson badSchemaBuild = (Next (Some (JsonValue (Arr [Str ''GITHUB'']))), [])"
    by code_simp
  show "createGraphQLSchema badSchemaBuild (NETLIFY_GRAPH_PERSIST_QUERY_TOKEN badSchemaBuild)
           (Some (JsonValue (Arr [Str ''GITHUB'']))) =
         (Next (Str ''schema-1''),
          [ConsoleLog [Str ''Creating a new Netlify Graph schema''],
           CreateGraphQLSchemaMutation (Str ''site-1'') (Arr [Str ''GITHUB'']) (Str ''token''),
           ConsoleLog [Str ''Created a new Netlify Graph schema'', Str ''schema-1'']])"
    by code_simp
  show "readGraphQLSchemaFile badSchemaBuild exampleResolved =
           (Next ''type Query'', [MkdirSync ''/opt/build/repo/lib/netlifyGraph''])"
    by code_simp
qed

lemma steps_legacy:
  shows "truthy (NETLIFY_GRAPH_PERSIST_QUERY_TOKEN legacyBuild)"
    and "resolveNetlifyGraphConfig legacyBuild =
           (Next exampleResolved, [ResolveConfig (Str ''/opt/build/repo/netlify.toml'')])"
    and "readNetlifyGraphJson legacyBuild = (Next (Some (JsonValue (Arr [Str ''GITHUB'']))), [])"
    and "createGraphQLSchema legacyBuild (NETLIFY_GRAPH_PERSIST_QUERY_TOKEN legacyBuild)
           (Some (JsonValue (Arr [Str ''GITHUB'']))) =
         (Next (Str ''schema-1''),
          [ConsoleLog [Str ''Creating a new Netlify Graph schema''],
           CreateGraphQLSchemaMutation (Str ''site-1'') (Arr [Str ''GITHUB'']) (Str ''token''),
           ConsoleLog [Str ''Created a new Netlify Graph schema'', Str ''schema-1'']])"
    and "readGraphQLSchemaFile legacyBuild exampleResolved =
           (Next ''type Query'', [MkdirSync ''/opt/build/repo/lib/netlifyGraph''])"
proof -
  show "truthy (NETLIFY_GRAPH_PERSIST_QUERY_TOKEN legacyBuild)"
    by code_simp
  show "resolveNetlifyGraphConfig legacyBuild =
           (Next exampleResolved, [ResolveConfig (Str ''/opt/build/repo/netlify.toml'')])"
    using example_resolve[of legacyBuild]
    by (simp add: legacyBuild_def exampleBuild_def)
  show "readNetlifyGraphJson legacyBuild = (Next (Some (JsonValue (Arr [Str ''GITHUB'']))), [])"
    by code_simp
  show "createGraphQLSchema legacyBuild (NETLIFY_GRAPH_PERSIST_QUERY_TOKEN legacyBuild)
           (Some (JsonValue (Arr [Str ''GITHUB'']))) =
         (Next (Str ''schema-1''),
          [ConsoleLog [Str ''Creating a new Netlify Graph schema''],
           CreateGraphQLSchemaMutation (Str ''site-1'') (Arr [Str ''GITHUB'']) (Str ''token''),
           ConsoleLog [Str ''Created a new Netlify Graph schema'', Str ''schema-1'']])"
    by code_simp
  show "readGraphQLSchemaFile legacyBuild exampleResolved =
           (Next ''type Query'', [MkdirSync ''/opt/build/repo/lib/netlifyGraph''])"
    by code_simp
qed

lemma steps_emptyLegacy:
  shows "truthy (NETLIFY_GRAPH_PERSIST_QUERY_TOKEN emptyLegacyBuild)"
    and "resolveNetlifyGraphConfig emptyLegacyBuild =
           (Next exampleResolved, [ResolveConfig (Str ''/opt/build/repo/netlify.toml'')])"
    and "readNetlifyGraphJson emptyLegacyBuild = (Next (Some (JsonValue (Arr [Str ''GITHUB'']))), [])"
    and "createGraphQLSchema emptyLegacyBuild (NETLIFY_GRAPH_PERSIST_QUERY_TOKEN emptyLegacyBuild)
           (Some (JsonValue (Arr [Str ''GITHUB'']))) =
         (Next (Str ''schema-1''),
          [ConsoleLog [Str ''Creating a new Netlify Graph schema''],
           CreateGraphQLSchemaMutation (Str ''site-1'') (Arr [Str ''GITHUB'']) (Str ''token''),
           ConsoleLog [Str ''Created a new Netlify Graph schema'', Str ''schema-1'']])"
    and "readGraphQLSchemaFile emptyLegacyBuild exampleResolved =
           (Next ''type Query'', [MkdirSync ''/opt/build/repo/lib/netlifyGraph''])"
proof -
  show "truthy (NETLIFY_GRAPH_PERSIST_QUERY_TOKEN emptyLegacyBuild)"
    by code_simp
  show "resolveNetlifyGraphConfig emptyLegacyBuild =
           (Next exampleResolved, [ResolveConfig (Str ''/opt/build/repo/netlify.toml'')])"
    using example_resolve[of emptyLegacyBuild]
    by (simp add: emptyLegacyBuild_def legacyBuild_def exampleBuild_def)
  show "readNetlifyGraphJson emptyLegacyBuild = (Next (Some (JsonValue (Arr [Str ''GITHUB'']))), [])"
    by code_simp
  show "createGraphQLSchema emptyLegacyBuild (NETLIFY_GRAPH_PERSIST_QUERY_TOKEN emptyLegacyBuild)
           (Some (JsonValue (Arr [Str ''GITHUB'']))) =
         (Next (Str ''schema-1''),
          [ConsoleLog [Str ''Creating a new Netlify Graph schema''],
           CreateGraphQLSchemaMutation (Str ''site-1'') (Arr [Str ''GITHUB'']) (Str ''token''),
           ConsoleLog [Str ''Created a new Netlify Graph schema'', Str ''schema-1'']])"
    by code_simp
  show "readGraphQLSchemaFile emptyLegacyBuild exampleResolved =
           (Next ''type Query'', [MkdirSync ''/opt/build/repo/lib/netlifyGraph''])"
    by code_simp
qed

lemma steps_noOperations:
  shows "truthy (NETLIFY_GRAPH_PERSIST_QUERY_TOKEN noOperationsBuild)"
    and "resolveNetlifyGraphConfig noOperationsBuild =
           (Next exampleResolved, [ResolveConfig (Str ''/opt/build/repo/netlify.toml'')])"
    and "readNetlifyGraphJson noOperationsBuild = (Next (Some (JsonValue (Arr [Str ''GITHUB'']))), [])"
    and "createGraphQLSchema noOperationsBuild (NETLIFY_GRAPH_PERSIST_QUERY_TOKEN noOperationsBuild)
           (Some (JsonValue (Arr [Str ''GITHUB'']))) =
         (Next (Str ''schema-1''),
          [ConsoleLog [Str ''Creating a new Netlify Graph schema''],
           CreateGraphQLSchemaMutation (Str ''site-1'') (Arr [Str ''GITHUB'']) (Str ''token''),
           ConsoleLog [Str ''Created a new Netlify Graph schema'', Str ''schema-1'']])"
    and "readGraphQLSchemaFile noOperationsBuild exampleResolved =
           (Next ''type Query'', [MkdirSync ''/opt/build/repo/lib/netlifyGraph''])"
proof -
  show "truthy (NETLIFY_GRAPH_PERSIST_QUERY_TOKEN noOperationsBuild)"
    by code_simp
  show "resolveNetlifyGraphConfig noOperationsBuild =
           (Next exampleResolved, [ResolveConfig (Str ''/opt/build/repo/netlify.toml'')])"
    using example_resolve[of noOperationsBuild]
    by (simp add: noOperationsBuild_def exampleBuild_def)
  show "readNetlifyGraphJson noOperationsBuild = (Next (Some (JsonValue (Arr [Str ''GITHUB'']))), [])"
    by code_simp
  show "createGraphQLSchema noOperationsBuild (NETLIFY_GRAPH_PERSIST_QUERY_TOKEN noOperationsBuild)
           (Some (JsonValue (Arr [Str ''GITHUB'']))) =
         (Next (Str ''schema-1''),
          [ConsoleLog [Str ''Creating a new Netlify Graph schema''],
           CreateGraphQLSchemaMutation (Str ''site-1'') (Arr [Str ''GITHUB'']) (Str ''token''),
           ConsoleLog [Str ''Created a new Netlify Graph schema'', Str ''schema-1'']])"
    by code_simp
  show "readGraphQLSchemaFile noOperationsBuild exampleResolved =
           (Next ''type Query'', [MkdirSync ''/opt/build/repo/lib/netlifyGraph''])"
    by code_simp
qed

theorem schema_failure_is_soft_witness:
  "onPreBuild badSchemaBuild =
     (Returned,
      [ResolveConfig (Str ''/opt/build/repo/netlify.toml''),
       ConsoleLog [Str ''Creating a new Netlify Graph schema''],
       CreateGraphQLSchemaMutation (Str ''site-1'') (Arr [Str ''GITHUB'']) (Str ''token''),
       ConsoleLog [Str ''Created a new Netlify Graph schema'', Str ''schema-1''],
       MkdirSync ''/opt/build/repo/lib/netlifyGraph'',
       ConsoleError ''Error parsing schema: Syntax Error'',
       ConsoleError ''Failed to parse Netlify GraphQL schema'']) \<and>
   filter isFailBuild (snd (onPreBuild badSchemaBuild)) = []"
proof -
  have build: "GraphQL_buildSchema badSchemaBuild ''type Query'' = Inl (Rejected ''Syntax Error'')"
    by (simp add: badSchemaBuild_def)
  have "onPreBuild badSchemaBuild =
     (Returned,
      [ResolveConfig (Str ''/opt/build/repo/netlify.toml'')] @ [] @
      [ConsoleLog [Str ''Creating a new Netlify Graph schema''],
       CreateGraphQLSchemaMutation (Str ''site-1'') (Arr [Str ''GITHUB'']) (Str ''token''),
       ConsoleLog [Str ''Created a new Netlify Graph schema'', Str ''schema-1'']] @
      [MkdirSync ''/opt/build/repo/lib/netlifyGraph''] @
      [ConsoleError (''Error parsing schema: '' @ errorString badSchemaBuild (Rejected ''Syntax Error'')),
       ConsoleError ''Failed to parse Netlify GraphQL schema'']) \<and>
   filter isFailBuild (snd (onPreBuild badSchemaBuild)) = []"
    by (rule schema_failure_is_soft[OF steps_badSchema build])
  then show ?thesis
    by (simp add: badSchemaBuild_def exampleBuild_def isFailBuild_def)
qed

text \<open>
  A schema that does not build does not fail the build: the run ends by an early return, and
  its trace holds the two error messages and no call of the build-failure API.
\<close>

theorem schema_failure_counterexample:
  "GraphQL_buildSchema badSchemaBuild ''type Query'' = Inl (Rejected ''Syntax Error'') \<and>
   fst (onPreBuild badSchemaBuild) = Returned \<and>
   ConsoleError ''Error parsing schema: Syntax Error'' \<in> set (snd (onPreBuild badSchemaBuild)) \<and>
   filter isFailBuild (snd (onPreBuild badSchemaBuild)) = []"
  by code_simp


text \<open>
  \<^bold>\<open>C3.\<close>  In a run that gets as far as the legacy check, when the legacy single-file
  operations source exists and is not empty, the handler calls the build-failure API with the
  migration message right after reading the file, whatever the operations directory holds
  (it has not been read yet).
\<close>

theorem legacy_library_fails_build:
  assumes token: "truthy (NETLIFY_GRAPH_PERSIST_QUERY_TOKEN env)"
      and cfg: "resolveNetlifyGraphConfig env = (Next netlifyGraphConfig, t0)"
      and json: "readNetlifyGraphJson env = (Next netlifyGraphJson, t1)"
      and create: "createGraphQLSchema env (NETLIFY_GRAPH_PERSIST_QUERY_TOKEN env) netlifyGraphJson
                     = (Next newSchemaId, t2)"
      and schema: "buildGraphQLSchema env netlifyGraphConfig = (Next (Some schema), t3)"
      and legacy: "readLegacyGraphQLOperationsSourceFile env netlifyGraphConfig
                     = (Next (Some source), t4)"
      and nonempty: "source \<noteq> []"
  shows "\<exists>rest. snd (onPreBuild env) =
           t0 @ t1 @ t2 @ t3 @ t4 @ FailBuild legacyLibraryMessage NoDetails # rest"
proof -
  have r: "snd (rejectLegacyLibrary env (Some source)) = [FailBuild legacyLibraryMessage NoDetails]"
    using nonempty by (simp add: rejectLegacyLibrary_def)
  have "\<exists>rest. snd (tryBlock env (NETLIFY_GRAPH_PERSIST_QUERY_TOKEN env)) =
      t0 @ t1 @ t2 @ t3 @ t4 @ FailBuild legacyLibraryMessage NoDetails # rest"
    unfolding tryBlock_def snd_bindIO_Next[OF cfg] snd_bindIO_Next[OF json]
      snd_bindIO_Next[OF create] snd_bindIO_Next[OF schema]
    by (simp add: snd_bindIO_Next[OF legacy] snd_bindIO[of "rejectLegacyLibrary env (Some source)"] r)
  then show ?thesis
    using snd_onPreBuild[OF token] by auto
qed

lemma legacy_read_legacy:
  "readLegacyGraphQLOperationsSourceFile legacyBuild exampleResolved =
     (Next (Some ''query Old''), [MkdirSync ''/opt/build/repo/lib/netlifyGraph''])"
  by code_simp

lemma schema_legacy:
  "buildGraphQLSchema legacyBuild exampleResolved =
     (Next (Some (GraphQLSchema ''type Query'')), [MkdirSync ''/opt/build/repo/lib/netlifyGraph''])"
  by code_simp

theorem legacy_library_fails_build_witness:
  "\<exists>rest. snd (onPreBuild legacyBuild) =
     [ResolveConfig (Str ''/opt/build/repo/netlify.toml''),
      ConsoleLog [Str ''Creating a new Netlify Graph schema''],
      CreateGraphQLSchemaMutation (Str ''site-1'') (Arr [Str ''GITHUB'']) (Str ''token''),
      ConsoleLog [Str ''Created a new Netlify Graph schema'', Str ''schema-1''],
      MkdirSync ''/opt/build/repo/lib/netlifyGraph'',
      MkdirSync ''/opt/build/repo/lib/netlifyGraph'',
      FailBuild legacyLibraryMessage NoDetails] @ rest"
proof -
  have ne: "''query Old'' \<noteq> []" by simp
  show ?thesis
    using legacy_library_fails_build[OF steps_legacy(1,2,3,4) schema_legacy legacy_read_legacy ne]
    by simp
qed

lemma legacy_read_emptyLegacy:
  "readLegacyGraphQLOperationsSourceFile emptyLegacyBuild exampleResolved =
     (Next (Some []), [MkdirSync ''/opt/build/repo/lib/netlifyGraph''])"
  by code_simp

text \<open>
  A legacy file that exists and is empty is read as the empty string, which is not
  \<^verbatim>\<open>null\<close> but counts as false: the run goes on to generate the client and never calls the
  build-failure API.
\<close>

theorem empty_legacy_library_counterexample:
  "resolveNetlifyGraphConfig emptyLegacyBuild =
     (Next exampleResolved, [ResolveConfig (Str ''/opt/build/repo/netlify.toml'')]) \<and>
   readLegacyGraphQLOperationsSourceFile emptyLegacyBuild exampleResolved =
     (Next (Some []), [MkdirSync ''/opt/build/repo/lib/netlifyGraph'']) \<and>
   fst (onPreBuild emptyLegacyBuild) = Next () \<and>
   filter isFailBuild (snd (onPreBuild emptyLegacyBuild)) = []"
proof -
  have "fst (onPreBuild emptyLegacyBuild) = Next ()"
    by code_simp
  moreover have "filter isFailBuild (snd (onPreBuild emptyLegacyBuild)) = []"
    by code_simp
  ultimately show ?thesis
    using steps_emptyLegacy(2) legacy_read_emptyLegacy by simp
qed


lemma reject_trace:
  assumes "rejectLegacyLibrary env legacy = (Next (), t5)"
      and "failBuildThrows env \<or> legacy = None \<or> legacy = Some []"
  shows "t5 = []"
  using assms
  by (auto simp: rejectLegacyLibrary_def failBuild_def bindIO_def emit_def ret_def
      split: option.splits if_splits)

lemma reject_no_generator:
  "filter isGeneratorCall (snd (rejectLegacyLibrary env legacy)) = []"
  by (simp add: rejectLegacyLibrary_def quiet_events split: option.splits)

text \<open>
  \<^bold>\<open>C8.\<close>  In a run that gets as far as aggregating the operation files, when the aggregated
  document is empty after trimming, the handler logs the warning and returns: nothing else
  follows, the generator is not called anywhere in the run, and the build-failure API is not
  called anywhere in the run when it throws as the build tool's does (or when no legacy
  source with content exists), the only earlier call that lets a run get this far being the
  legacy check's with a build-failure API that returns.
\<close>

theorem empty_operations_skip:
  assumes token: "truthy (NETLIFY_GRAPH_PERSIST_QUERY_TOKEN env)"
      and cfg: "resolveNetlifyGraphConfig env = (Next netlifyGraphConfig, t0)"
      and json: "readNetlifyGraphJson env = (Next netlifyGraphJson, t1)"
      and create: "createGraphQLSchema env (NETLIFY_GRAPH_PERSIST_QUERY_TOKEN env) netlifyGraphJson
                     = (Next newSchemaId, t2)"
      and schema: "buildGraphQLSchema env netlifyGraphConfig = (Next (Some schema), t3)"
      and legacy: "readLegacyGraphQLOperationsSourceFile env netlifyGraphConfig
                     = (Next legacySourceGraphQLFile, t4)"
      and reject: "rejectLegacyLibrary env legacySourceGraphQLFile = (Next (), t5)"
      and ops: "readGraphQLOperationsSourceFiles env netlifyGraphConfig
                  = (Next currentOperationsDoc, t6)"
      and empty: "length (trim currentOperationsDoc) = 0"
  shows "onPreBuild env =
           (Returned, t0 @ t1 @ t2 @ t3 @ t4 @ t5 @ t6 @ [ConsoleWarn noOperationsWarning]) \<and>
         filter isGeneratorCall (snd (onPreBuild env)) = [] \<and>
         (failBuildThrows env \<or> legacySourceGraphQLFile = None \<or>
          legacySourceGraphQLFile = Some [] \<longrightarrow>
            filter isFailBuild (snd (onPreBuild env)) = [])"
proof -
  have tb: "tryBlock env (NETLIFY_GRAPH_PERSIST_QUERY_TOKEN env) =
      (Returned, t0 @ t1 @ t2 @ t3 @ t4 @ t5 @ t6 @ [ConsoleWarn noOperationsWarning])"
    using cfg json create schema legacy reject ops empty
    by (simp add: tryBlock_def bindIO_def emit_def returnEarly_def)
  have run: "onPreBuild env =
      (Returned, t0 @ t1 @ t2 @ t3 @ t4 @ t5 @ t6 @ [ConsoleWarn noOperationsWarning])"
    using token tb by (simp add: onPreBuild_def)
  have t1: "t1 = []"
    using json_then_schema[OF json create] .
  have g: "filter isGeneratorCall t0 = []" "filter isGeneratorCall t2 = []"
    "filter isGeneratorCall t3 = []" "filter isGeneratorCall t4 = []"
    "filter isGeneratorCall t5 = []" "filter isGeneratorCall t6 = []"
    using cfg resolve_trace[of env] quiet_of[OF create quiet_create]
      quiet_of[OF schema quiet_buildSchema] quiet_of[OF legacy quiet_legacy]
      quiet_of[OF reject reject_no_generator] quiet_of[OF ops quiet_operations]
    by (simp_all add: quiet_events)
  have f: "filter isFailBuild t0 = []" "filter isFailBuild t2 = []"
    "filter isFailBuild t3 = []" "filter isFailBuild t4 = []" "filter isFailBuild t6 = []"
    using cfg resolve_trace[of env] quiet_of[OF create quiet_create]
      quiet_of[OF schema quiet_buildSchema] quiet_of[OF legacy quiet_legacy]
      quiet_of[OF ops quiet_operations]
    by (simp_all add: quiet_events)
  have t5: "failBuildThrows env \<or> legacySourceGraphQLFile = None \<or>
          legacySourceGraphQLFile = Some [] \<Longrightarrow> t5 = []"
    using reject_trace[OF reject] .
  show ?thesis
    using run t1 g f t5 by (auto simp: quiet_events)
qed

lemma legacy_read_noOperations:
  "readLegacyGraphQLOperationsSourceFile noOperationsBuild exampleResolved =
     (Next None, [MkdirSync ''/opt/build/repo/lib/netlifyGraph''])"
  by code_simp

lemma schema_noOperations:
  "buildGraphQLSchema noOperationsBuild exampleResolved =
     (Next (Some (GraphQLSchema ''type Query'')), [MkdirSync ''/opt/build/repo/lib/netlifyGraph''])"
  by code_simp

lemma noOperations_read:
  "readGraphQLOperationsSourceFiles noOperationsBuild exampleResolved =
     (Next [],
      [MkdirSync ''/opt/build/repo/lib/netlifyGraph'',
       ConsoleLog [Str ''operationsPath'', Str ''/netlify/functions/netlifyGraph/operations''],
       ConsoleLog [Str ''filenames'', Arr [Str ''notes.txt'']],
       ConsoleLog [Str ''GraphQL source'', Str []]])"
  by code_simp

theorem empty_operations_skip_witness:
  "onPreBuild noOperationsBuild =
     (Returned,
      [ResolveConfig (Str ''/opt/build/repo/netlify.toml''),
       ConsoleLog [Str ''Creating a new Netlify Graph schema''],
       CreateGraphQLSchemaMutation (Str ''site-1'') (Arr [Str ''GITHUB'']) (Str ''token''),
       ConsoleLog [Str ''Created a new Netlify Graph schema'', Str ''schema-1''],
       MkdirSync ''/opt/build/repo/lib/netlifyGraph'',
       MkdirSync ''/opt/build/repo/lib/netlifyGraph'',
       MkdirSync ''/opt/build/repo/lib/netlifyGraph'',
       ConsoleLog [Str ''operationsPath'', Str ''/netlify/functions/netlifyGraph/operations''],
       ConsoleLog [Str ''filenames'', Arr [Str ''notes.txt'']],
       ConsoleLog [Str ''GraphQL source'', Str []],
       ConsoleWarn noOperationsWarning]) \<and>
   filter isGeneratorCall (snd (onPreBuild noOperationsBuild)) = [] \<and>
   filter isFailBuild (snd (onPreBuild noOperationsBuild)) = []"
proof -
  have reject: "rejectLegacyLibrary noOperationsBuild None = (Next (), [])"
    by (simp add: rejectLegacyLibrary_def ret_def)
  have empty: "length (trim []) = 0"
    by (simp add: trim_def)
  have throws: "failBuildThrows noOperationsBuild"
    by (simp add: noOperationsBuild_def exampleBuild_def)
  show ?thesis
    using empty_operations_skip[OF steps_noOperations(1,2,3,4) schema_noOperations legacy_read_noOperations
        reject noOperations_read empty] throws
    by (simp add: quiet_events)
qed


lemma foldl_definitions:
  "definitions (foldl (\<lambda>acc file.
              \<lparr>kind = ''Document'',
               definitions = definitions acc @ definitions (parsedOperation file)\<rparr>) acc files) =
   definitions acc @ concat (map (\<lambda>file. definitions (parsedOperation file)) files)"
  by (induction files arbitrary: acc) simp_all

lemma parsedDocOf_definitions:
  "definitions (parsedDocOf operationFiles) =
     concat (map (\<lambda>file. definitions (parsedOperation file)) operationFiles)"
  by (simp add: parsedDocOf_def foldl_definitions emptyDocDefinitionNode_def)

lemma readOperationFiles_names:
  "readOperationFiles env operationsPath filenames = Inr operationFiles \<Longrightarrow>
     map name operationFiles = filter isOperationFilename filenames"
proof (induction filenames arbitrary: operationFiles)
  case Nil
  then show ?case by simp
next
  case (Cons filename filenames)
  then show ?case
    by (auto simp: bindE_Inr_iff split: if_splits)
qed

lemma readOperationFiles_parsed:
  "readOperationFiles env operationsPath filenames = Inr operationFiles \<Longrightarrow>
     list_all (\<lambda>file. GraphQL_parse env (content file) = Inr (parsedOperation file)) operationFiles"
proof (induction filenames arbitrary: operationFiles)
  case Nil
  then show ?case by simp
next
  case (Cons filename filenames)
  then show ?case
    by (auto simp: bindE_Inr_iff split: if_splits)
qed

lemma bindIO_Next_iff:
  "bindIO m f = (Next y, tr) \<longleftrightarrow>
     (\<exists>x t1 t2. m = (Next x, t1) \<and> f x = (Next y, t2) \<and> tr = t1 @ t2)"
  by (cases m; cases "fst m") (auto simp: bindIO_def split: prod.splits)

lemma liftE_Next_iff: "liftE m = (Next x, tr) \<longleftrightarrow> m = Inr x \<and> tr = []"
  by (cases m) (auto simp: liftE_def)

text \<open>
  \<^bold>\<open>C4.\<close>  When \<^verbatim>\<open>readGraphQLOperationsSourceFiles\<close> returns, the operation files are the
  directory entries whose name matches, in directory order, each parsed from its content,
  and the text returned is the print of one document whose definitions are the files'
  definitions concatenated in that order: their number is the sum of the files' numbers.
\<close>

theorem operations_are_concatenated:
  assumes "readGraphQLOperationsSourceFiles env netlifyGraphConfig = (Next source, tr)"
  shows "\<exists>operationsPath filenames operationFiles.
           resolvePath env (getProp netlifyGraphConfig ''graphQLOperationsSourceDirectory'') =
             Inr operationsPath \<and>
           fs_readdirSync env operationsPath = Inr filenames \<and>
           readOperationFiles env operationsPath filenames = Inr operationFiles \<and>
           map name operationFiles = filter isOperationFilename filenames \<and>
           list_all (\<lambda>file. GraphQL_parse env (content file) = Inr (parsedOperation file))
             operationFiles \<and>
           source = GraphQL_print env (parsedDocOf operationFiles) \<and>
           definitions (parsedDocOf operationFiles) =
             concat (map (\<lambda>file. definitions (parsedOperation file)) operationFiles) \<and>
           length (definitions (parsedDocOf operationFiles)) =
             sum_list (map (\<lambda>file. length (definitions (parsedOperation file))) operationFiles)"
proof -
  from assms obtain operationsPath filenames operationFiles where
    p: "resolvePath env (getProp netlifyGraphConfig ''graphQLOperationsSourceDirectory'') =
             Inr operationsPath"
    and d: "fs_readdirSync env operationsPath = Inr filenames"
    and f: "readOperationFiles env operationsPath filenames = Inr operationFiles"
    and s: "source = GraphQL_print env (parsedDocOf operationFiles)"
    by (auto simp: readGraphQLOperationsSourceFiles_def Let_def bindIO_Next_iff liftE_Next_iff
        emit_def ret_def)
  have l: "length (definitions (parsedDocOf operationFiles)) =
             sum_list (map (\<lambda>file. length (definitions (parsedOperation file))) operationFiles)"
    by (simp add: parsedDocOf_definitions length_concat comp_def)
  show ?thesis
    using p d f s l parsedDocOf_definitions[of operationFiles]
      readOperationFiles_names[OF f] readOperationFiles_parsed[OF f]
    by blast
qed

theorem operations_are_concatenated_witness:
  "\<exists>operationFiles.
     readOperationFiles exampleBuild ''/netlify/functions/netlifyGraph/operations''
       [''A.graphql'', ''notes.txt'', ''B.graphql''] = Inr operationFiles \<and>
     map name operationFiles = [''A.graphql'', ''B.graphql''] \<and>
     map (\<lambda>file. definitions (parsedOperation file)) operationFiles =
       [[''query A''], [''query B'', ''fragment C'']] \<and>
     definitions (parsedDocOf operationFiles) = [''query A'', ''query B'', ''fragment C''] \<and>
     length (definitions (parsedDocOf operationFiles)) = 3"
proof -
  have run: "readGraphQLOperationsSourceFiles exampleBuild exampleResolved =
     (Next (''query A'' @ [newline] @ ''query B'' @ [newline] @ ''fragment C''),
      [MkdirSync ''/opt/build/repo/lib/netlifyGraph'',
       ConsoleLog [Str ''operationsPath'', Str ''/netlify/functions/netlifyGraph/operations''],
       ConsoleLog [Str ''filenames'', Arr [Str ''A.graphql'', Str ''notes.txt'', Str ''B.graphql'']],
       ConsoleLog [Str ''GraphQL source'',
                   Str (''query A'' @ [newline] @ ''query B'' @ [newline] @ ''fragment C'')]])"
    by code_simp
  have p: "resolvePath exampleBuild (getProp exampleResolved ''graphQLOperationsSourceDirectory'')
      = Inr ''/netlify/functions/netlifyGraph/operations''"
    by code_simp
  have d: "fs_readdirSync exampleBuild p = Inr [''A.graphql'', ''notes.txt'', ''B.graphql'']" for p
    by (simp add: exampleBuild_def)
  have m: "\<And>fs. readOperationFiles exampleBuild ''/netlify/functions/netlifyGraph/operations''
       [''A.graphql'', ''notes.txt'', ''B.graphql''] = Inr fs \<Longrightarrow>
     map (\<lambda>file. definitions (parsedOperation file)) fs =
       [[''query A''], [''query B'', ''fragment C'']]"
  proof -
    fix fs
    assume a: "readOperationFiles exampleBuild ''/netlify/functions/netlifyGraph/operations''
       [''A.graphql'', ''notes.txt'', ''B.graphql''] = Inr fs"
    have "map_sum id (map (\<lambda>file. definitions (parsedOperation file)))
        (readOperationFiles exampleBuild ''/netlify/functions/netlifyGraph/operations''
       [''A.graphql'', ''notes.txt'', ''B.graphql'']) = Inr [[''query A''], [''query B'', ''fragment C'']]"
      by code_simp
    with a show "map (\<lambda>file. definitions (parsedOperation file)) fs =
       [[''query A''], [''query B'', ''fragment C'']]" by simp
  qed
  have o: "filter isOperationFilename [''A.graphql'', ''notes.txt'', ''B.graphql''] =
      [''A.graphql'', ''B.graphql'']"
    by code_simp
  from operations_are_concatenated[OF run] p d
  obtain operationFiles where
    f: "readOperationFiles exampleBuild ''/netlify/functions/netlifyGraph/operations''
       [''A.graphql'', ''notes.txt'', ''B.graphql''] = Inr operationFiles"
    and n: "map name operationFiles =
       filter isOperationFilename [''A.graphql'', ''notes.txt'', ''B.graphql'']"
    and c: "definitions (parsedDocOf operationFiles) =
             concat (map (\<lambda>file. definitions (parsedOperation file)) operationFiles)"
    and l: "length (definitions (parsedDocOf operationFiles)) =
             sum_list (map (\<lambda>file. length (definitions (parsedOperation file))) operationFiles)"
    by auto
  have c': "definitions (parsedDocOf operationFiles) = [''query A'', ''query B'', ''fragment C'']"
    using c m[OF f] by simp
  show ?thesis
    using f n o m[OF f] c' by auto
qed


end
